theory Spec2Isabelle
  imports Main "HOL-Library.Word" "HOL-Library.Multiset"
begin

section \<open>JavaScript strings\<close>

text \<open>
  A JavaScript string is modelled as a \<^typ>\<open>string\<close>, one \<^typ>\<open>char\<close> per code unit;
  the code units that occur in the handlers' literals (\<open>"."\<close>, \<open>","\<close>, \<open>"video"\<close>,
  \<open>".mp4"\<close>, \<open>".jpg"\<close>, digits) are all ASCII.
\<close>

text \<open>\<open>s.split(sep)\<close> for a one-character separator: never the empty array.\<close>

fun str_split :: "char \<Rightarrow> string \<Rightarrow> string list" where
  "str_split sep [] = [[]]"
| "str_split sep (c # cs) =
     (if c = sep then [] # str_split sep cs
      else (c # hd (str_split sep cs)) # tl (str_split sep cs))"

text \<open>\<open>xs[i]\<close>: \<open>undefined\<close> (here \<open>None\<close>) out of range.\<close>

definition at_index :: "'a list \<Rightarrow> nat \<Rightarrow> 'a option" where
  "at_index xs i = (if i < length xs then Some (xs ! i) else None)"

definition startsWith :: "string \<Rightarrow> string \<Rightarrow> bool" where
  "startsWith s p = (take (length p) s = p)"

definition endsWith :: "string \<Rightarrow> string \<Rightarrow> bool" where
  "endsWith s p = (length p \<le> length s \<and> drop (length s - length p) s = p)"

text \<open>The decimal digits of a non-negative integer, as a template literal prints it.\<close>

definition digit_char :: "nat \<Rightarrow> char" where
  "digit_char d = ''0123456789'' ! d"

fun string_of_nat :: "nat \<Rightarrow> string" where
  "string_of_nat n =
     (if n < 10 then [digit_char n]
      else string_of_nat (n div 10) @ [digit_char (n mod 10)])"

declare string_of_nat.simps [simp del]

definition isDigit :: "char \<Rightarrow> bool" where
  "isDigit c = (c \<in> set ''0123456789'')"

text \<open>A JavaScript value that is a string or \<open>undefined\<close>, printed by \<open>ToString\<close>.\<close>

definition to_string :: "string option \<Rightarrow> string" where
  "to_string v = (case v of None \<Rightarrow> ''undefined'' | Some s \<Rightarrow> s)"

text \<open>Truthiness of such a value: \<open>undefined\<close> and \<open>""\<close> are falsy.\<close>

definition truthy :: "string option \<Rightarrow> bool" where
  "truthy v = (case v of None \<Rightarrow> False | Some s \<Rightarrow> s \<noteq> [])"

section \<open>Data model\<close>

type_synonym bytes = "8 word list"

text \<open>The file object that multer's memory storage hands to a handler.\<close>

record upload_file =
  originalname :: string
  mimetype :: string
  buffer :: bytes

text \<open>
  Modelled from the spec: the gallery schema (\<open>models/galleryModel.js\<close>) is not among the
  sources. A gallery item has an identity, the reference of its monument, a display title
  and a storage key; these are also the fields the handlers write and the page reads
  (\<open>doc_id\<close> stands for \<open>_id\<close>).
\<close>

record gallery_item =
  doc_id :: string
  monumentId :: string
  imgTitle :: string
  image :: string

text \<open>\<open>{...galleryItem.toObject(), imageUrl: url}\<close>: the document and one more field.\<close>

record gallery_view = gallery_item +
  imageUrl :: string

text \<open>
  Modelled from the spec: the monument schema (\<open>models/monumentModel.js\<close>) is not among
  the sources. Of a monument's fields those are kept that the public routes and the detail
  page decide on: identity, title, place, state, location (a string, possibly absent),
  verification status, owner reference and creation time. The narrative text fields are
  carried along untouched by every handler here and are left out.
\<close>

record monument =
  mon_id :: string
  title :: string
  place :: string
  state :: string
  location :: "string option"
  status :: int
  user :: "string option"
  createdAt :: int

text \<open>
  Modelled from the spec: the user schema (\<open>models/userModel.js\<close>) is not among the
  sources. Of a user the identity and the display name are kept.
\<close>

record user_doc =
  user_id :: string
  name :: string

record s3_object =
  body :: bytes
  contentType :: string

datatype s3_command =
  PutObjectCommand string bytes string
| DeleteObjectCommand string
| GetObjectCommand string

datatype db_op =
  MonumentFind
| MonumentFindById string
| UserFindById "string option"
| GalleryCreate
| GalleryFind string
| GalleryFindById string
| GallerySave string
| GalleryFindByIdAndDelete string

text \<open>Every call that leaves the process, in the order the handler issues it.\<close>

datatype event =
  Db db_op
| S3 s3_command
| Sign s3_command nat

datatype js_error =
  Error string
| TypeError string

definition message :: "js_error \<Rightarrow> string" where
  "message e = (case e of Error m \<Rightarrow> m | TypeError m \<Rightarrow> m)"

text \<open>
  What the handlers cannot decide themselves: the random draw, the encoder, and which calls
  to the two stores fail.
  \<^item> \<open>random_draw\<close> is \<open>Math.floor(Math.random() * 1000000)\<close>;
  \<^item> \<open>sharp_jpeg q b\<close> is \<open>sharp(b).jpeg({quality: q}).toBuffer()\<close>, \<open>None\<close> when it throws;
  \<^item> \<open>s3_fails c\<close> holds when \<open>s3.send(c)\<close> rejects;
  \<^item> \<open>presign c t\<close> is \<open>getSignedUrl(s3, c, {expiresIn: t})\<close>, \<open>None\<close> when it rejects;
  \<^item> \<open>db_fails op\<close> is the message of the error the database call throws, if it does;
  \<^item> \<open>new_id\<close> is the identifier the next created document gets.
\<close>

record env =
  random_draw :: nat
  sharp_jpeg :: "nat \<Rightarrow> bytes \<Rightarrow> bytes option"
  s3_fails :: "s3_command \<Rightarrow> bool"
  presign :: "s3_command \<Rightarrow> nat \<Rightarrow> string option"
  db_fails :: "db_op \<Rightarrow> string option"
  new_id :: string

text \<open>The two stores and the log of issued calls.\<close>

record world =
  monuments :: "monument list"
  users :: "user_doc list"
  gallery :: "gallery_item list"
  bucket :: "string \<rightharpoonup> s3_object"
  trace :: "event list"

datatype payload =
  Message string
| Monuments "monument list"
| Combined monument string
| Item gallery_item
| ItemWithUrl gallery_view
| ItemsWithUrl "gallery_view list"

datatype response = Response (code: nat) (sent: payload)

section \<open>Media compressor\<close>

definition compressAndSaveFile :: "env \<Rightarrow> upload_file \<Rightarrow> js_error + (string \<times> bytes)" where
  "compressAndSaveFile e file =
     (let randomNumber = random_draw e + 1000000 in
      if startsWith (mimetype file) ''video''
      then Inr (hd (str_split CHR ''.'' (originalname file)) @ string_of_nat randomNumber @ ''.mp4'',
                buffer file)
      else (case sharp_jpeg e 30 (buffer file) of
              None \<Rightarrow> Inl (Error ''Error compressing file'')
            | Some compressedFile \<Rightarrow>
                Inr (hd (str_split CHR ''.'' (originalname file)) @ string_of_nat randomNumber @ ''.jpg'',
                     compressedFile)))"

section \<open>Calls to the two stores\<close>

definition issue :: "event \<Rightarrow> world \<Rightarrow> world" where
  "issue ev w = w\<lparr>trace := trace w @ [ev]\<rparr>"

text \<open>\<open>await s3.send(command)\<close>. Deleting a key that holds nothing succeeds.\<close>

definition s3_send :: "env \<Rightarrow> s3_command \<Rightarrow> world \<Rightarrow> (js_error + unit) \<times> world" where
  "s3_send e c w =
     (let w1 = issue (S3 c) w in
      if s3_fails e c then (Inl (Error ''S3 request failed''), w1)
      else (Inr (),
            (case c of
               PutObjectCommand k b t \<Rightarrow> w1\<lparr>bucket := (bucket w1)(k \<mapsto> \<lparr>body = b, contentType = t\<rparr>)\<rparr>
             | DeleteObjectCommand k \<Rightarrow> w1\<lparr>bucket := (bucket w1)(k := None)\<rparr>
             | GetObjectCommand k \<Rightarrow> w1)))"

text \<open>\<open>await getSignedUrl(s3, command, {expiresIn: t})\<close>.\<close>

definition getSignedUrl :: "env \<Rightarrow> s3_command \<Rightarrow> nat \<Rightarrow> world \<Rightarrow> (js_error + string) \<times> world" where
  "getSignedUrl e c t w =
     (let w1 = issue (Sign c t) w in
      case presign e c t of
        None \<Rightarrow> (Inl (Error ''presigning failed''), w1)
      | Some url \<Rightarrow> (Inr url, w1))"

text \<open>A database call: logged, then either failing with the error of the environment or running.\<close>

definition db_call :: "env \<Rightarrow> db_op \<Rightarrow> (world \<Rightarrow> 'a \<times> world) \<Rightarrow> world \<Rightarrow> (js_error + 'a) \<times> world" where
  "db_call e op run w =
     (let w1 = issue (Db op) w in
      case db_fails e op of
        Some m \<Rightarrow> (Inl (Error m), w1)
      | None \<Rightarrow> (case run w1 of (r, w2) \<Rightarrow> (Inr r, w2)))"

definition Gallery_findById :: "env \<Rightarrow> string \<Rightarrow> world \<Rightarrow> (js_error + gallery_item option) \<times> world" where
  "Gallery_findById e i =
     db_call e (GalleryFindById i) (\<lambda>w. (find (\<lambda>g. doc_id g = i) (gallery w), w))"

definition Gallery_find :: "env \<Rightarrow> string \<Rightarrow> world \<Rightarrow> (js_error + gallery_item list) \<times> world" where
  "Gallery_find e m =
     db_call e (GalleryFind m) (\<lambda>w. (filter (\<lambda>g. monumentId g = m) (gallery w), w))"

text \<open>\<open>findByIdAndDelete\<close>: the document found is removed by the same call.\<close>

definition Gallery_findByIdAndDelete ::
  "env \<Rightarrow> string \<Rightarrow> world \<Rightarrow> (js_error + gallery_item option) \<times> world" where
  "Gallery_findByIdAndDelete e i =
     db_call e (GalleryFindByIdAndDelete i)
       (\<lambda>w. case find (\<lambda>g. doc_id g = i) (gallery w) of
               None \<Rightarrow> (None, w)
             | Some g \<Rightarrow> (Some g, w\<lparr>gallery := remove1 g (gallery w)\<rparr>))"

text \<open>
  \<open>Gallery.create\<close>: the new document gets the environment's identifier; an identifier
  already in the collection is refused by the store (\<open>_id\<close> is unique).
\<close>

definition Gallery_create ::
  "env \<Rightarrow> string \<Rightarrow> string \<Rightarrow> string \<Rightarrow> world \<Rightarrow> (js_error + gallery_item) \<times> world" where
  "Gallery_create e m t k w =
     (let w1 = issue (Db GalleryCreate) w in
      case db_fails e GalleryCreate of
        Some msg \<Rightarrow> (Inl (Error msg), w1)
      | None \<Rightarrow>
          if new_id e \<in> set (map doc_id (gallery w1))
          then (Inl (Error ''E11000 duplicate key error''), w1)
          else (let g = \<lparr>doc_id = new_id e, monumentId = m, imgTitle = t, image = k\<rparr>
                in (Inr g, w1\<lparr>gallery := gallery w1 @ [g]\<rparr>)))"

text \<open>\<open>galleryItem.save()\<close>: the stored document with this identifier takes the new fields.\<close>

definition Gallery_save :: "env \<Rightarrow> gallery_item \<Rightarrow> world \<Rightarrow> (js_error + unit) \<times> world" where
  "Gallery_save e g =
     db_call e (GallerySave (doc_id g))
       (\<lambda>w. ((), w\<lparr>gallery := map (\<lambda>x. if doc_id x = doc_id g then g else x) (gallery w)\<rparr>))"

section \<open>Gallery routes\<close>

definition internal_error :: response where
  "internal_error = Response 500 (Message ''Internal Server Error'')"

text \<open>The multipart request of \<open>POST /:monumentId\<close> and \<open>PUT /:id\<close>.\<close>

record upload_request =
  body_imgTitle :: "string option"
  req_file :: "upload_file option"

text \<open>
  \<open>POST /:monumentId\<close>. The guard \<open>!request.body.imgTitle || !request.file\<close> is the case
  distinction on the two fields: the request passes only with a non-empty title and a file.
\<close>

definition gallery_post :: "env \<Rightarrow> string \<Rightarrow> upload_request \<Rightarrow> world \<Rightarrow> response \<times> world" where
  "gallery_post e mid req w =
     (case (body_imgTitle req, req_file req) of
        (Some t, Some f) \<Rightarrow>
          if t = [] then (Response 400 (Message ''Send all required fields: imgTitle, image''), w)
          else
            (case compressAndSaveFile e f of
               Inl err \<Rightarrow> (internal_error, w)
             | Inr (fileName, buf) \<Rightarrow>
                 (case s3_send e (PutObjectCommand fileName buf (mimetype f)) w of
                    (Inl err, w1) \<Rightarrow> (internal_error, w1)
                  | (Inr u, w1) \<Rightarrow>
                      (case Gallery_create e mid t fileName w1 of
                         (Inl err, w2) \<Rightarrow> (internal_error, w2)
                       | (Inr galleryItem, w2) \<Rightarrow> (Response 201 (Item galleryItem), w2))))
      | _ \<Rightarrow> (Response 400 (Message ''Send all required fields: imgTitle, image''), w))"

definition add_url :: "gallery_item \<Rightarrow> string \<Rightarrow> gallery_view" where
  "add_url g url =
     \<lparr>doc_id = doc_id g, monumentId = monumentId g, imgTitle = imgTitle g, image = image g,
      imageUrl = url\<rparr>"

text \<open>The \<open>for ... of\<close> loop of the two \<open>/monument/:monumentId\<close> handlers.\<close>

fun sign_each ::
  "env \<Rightarrow> gallery_item list \<Rightarrow> gallery_view list \<Rightarrow> world \<Rightarrow> (js_error + gallery_view list) \<times> world" where
  "sign_each e [] updatedGalleryItems w = (Inr updatedGalleryItems, w)"
| "sign_each e (galleryItem # rest) updatedGalleryItems w =
     (case getSignedUrl e (GetObjectCommand (image galleryItem)) 3600 w of
        (Inl err, w1) \<Rightarrow> (Inl err, w1)
      | (Inr url, w1) \<Rightarrow> sign_each e rest (updatedGalleryItems @ [add_url galleryItem url]) w1)"

definition gallery_by_monument :: "env \<Rightarrow> string \<Rightarrow> world \<Rightarrow> response \<times> world" where
  "gallery_by_monument e mid w =
     (case Gallery_find e mid w of
        (Inl err, w1) \<Rightarrow> (internal_error, w1)
      | (Inr galleryItems, w1) \<Rightarrow>
          (case sign_each e galleryItems [] w1 of
             (Inl err, w2) \<Rightarrow> (internal_error, w2)
           | (Inr updatedGalleryItems, w2) \<Rightarrow> (Response 200 (ItemsWithUrl updatedGalleryItems), w2)))"

definition gallery_get_one :: "env \<Rightarrow> string \<Rightarrow> world \<Rightarrow> response \<times> world" where
  "gallery_get_one e i w =
     (case Gallery_findById e i w of
        (Inl err, w1) \<Rightarrow> (internal_error, w1)
      | (Inr None, w1) \<Rightarrow> (Response 404 (Message ''Gallery item not found''), w1)
      | (Inr (Some galleryItem), w1) \<Rightarrow>
          (case getSignedUrl e (GetObjectCommand (image galleryItem)) 3600 w1 of
             (Inl err, w2) \<Rightarrow> (internal_error, w2)
           | (Inr url, w2) \<Rightarrow> (Response 200 (ItemWithUrl (add_url galleryItem url)), w2)))"

text \<open>The \<open>if (request.file) { ... }\<close> block of \<open>PUT /:id\<close>, on the loaded document.\<close>

definition replace_file ::
  "env \<Rightarrow> upload_file option \<Rightarrow> gallery_item \<Rightarrow> world \<Rightarrow> (js_error + gallery_item) \<times> world" where
  "replace_file e file galleryItem w =
     (let oldImageKey = image galleryItem in
      case file of
        None \<Rightarrow> (Inr galleryItem, w)
      | Some f \<Rightarrow>
          (case compressAndSaveFile e f of
             Inl err \<Rightarrow> (Inl err, w)
           | Inr (fileName, buf) \<Rightarrow>
               (case s3_send e (PutObjectCommand fileName buf (mimetype f)) w of
                  (Inl err, w1) \<Rightarrow> (Inl err, w1)
                | (Inr u, w1) \<Rightarrow>
                    (case s3_send e (DeleteObjectCommand oldImageKey) w1 of
                       (Inl err, w2) \<Rightarrow> (Inl err, w2)
                     | (Inr u', w2) \<Rightarrow> (Inr (galleryItem\<lparr>image := fileName\<rparr>), w2)))))"

definition gallery_put :: "env \<Rightarrow> string \<Rightarrow> upload_request \<Rightarrow> world \<Rightarrow> response \<times> world" where
  "gallery_put e i req w =
     (case Gallery_findById e i w of
        (Inl err, w1) \<Rightarrow> (internal_error, w1)
      | (Inr None, w1) \<Rightarrow> (Response 404 (Message ''Gallery item not found''), w1)
      | (Inr (Some galleryItem), w1) \<Rightarrow>
          (case replace_file e (req_file req) galleryItem w1 of
             (Inl err, w2) \<Rightarrow> (internal_error, w2)
           | (Inr g1, w2) \<Rightarrow>
               (let g2 = (if truthy (body_imgTitle req)
                          then g1\<lparr>imgTitle := to_string (body_imgTitle req)\<rparr> else g1)
                in case Gallery_save e g2 w2 of
                     (Inl err, w3) \<Rightarrow> (internal_error, w3)
                   | (Inr u, w3) \<Rightarrow> (Response 200 (Item g2), w3))))"

definition gallery_delete :: "env \<Rightarrow> string \<Rightarrow> world \<Rightarrow> response \<times> world" where
  "gallery_delete e i w =
     (case Gallery_findByIdAndDelete e i w of
        (Inl err, w1) \<Rightarrow> (internal_error, w1)
      | (Inr None, w1) \<Rightarrow> (Response 404 (Message ''Gallery item not found''), w1)
      | (Inr (Some galleryItem), w1) \<Rightarrow>
          (case s3_send e (DeleteObjectCommand (image galleryItem)) w1 of
             (Inl err, w2) \<Rightarrow> (internal_error, w2)
           | (Inr u, w2) \<Rightarrow> (Response 200 (Message ''Gallery item deleted successfully''), w2)))"

section \<open>Public routes\<close>

text \<open>\<open>.sort({createdAt: -1})\<close>: descending creation time.\<close>

definition sort_createdAt_desc :: "monument list \<Rightarrow> monument list" where
  "sort_createdAt_desc ms = sort_key (\<lambda>m. - createdAt m) ms"

text \<open>\<open>Monument.find({status: 1})\<close>, the filter of both list routes.\<close>

definition find_status :: "int \<Rightarrow> monument list \<Rightarrow> monument list" where
  "find_status s ms = filter (\<lambda>m. status m = s) ms"

definition public_all :: "env \<Rightarrow> world \<Rightarrow> response \<times> world" where
  "public_all e w =
     (case db_call e MonumentFind (\<lambda>w'. (find_status 1 (monuments w'), w')) w of
        (Inl err, w1) \<Rightarrow> (Response 500 (Message (message err)), w1)
      | (Inr monument, w1) \<Rightarrow> (Response 200 (Monuments monument), w1))"

definition public_latest3 :: "env \<Rightarrow> world \<Rightarrow> response \<times> world" where
  "public_latest3 e w =
     (case db_call e MonumentFind
             (\<lambda>w'. (take 3 (sort_createdAt_desc (find_status 1 (monuments w'))), w')) w of
        (Inl err, w1) \<Rightarrow> (Response 500 (Message (message err)), w1)
      | (Inr ms, w1) \<Rightarrow> (Response 200 (Monuments ms), w1))"

definition Monument_findById :: "env \<Rightarrow> string \<Rightarrow> world \<Rightarrow> (js_error + monument option) \<times> world" where
  "Monument_findById e i =
     db_call e (MonumentFindById i) (\<lambda>w. (find (\<lambda>m. mon_id m = i) (monuments w), w))"

text \<open>\<open>User.findById(ref)\<close>; an absent reference finds nothing.\<close>

definition User_findById :: "env \<Rightarrow> string option \<Rightarrow> world \<Rightarrow> (js_error + user_doc option) \<times> world" where
  "User_findById e r =
     db_call e (UserFindById r)
       (\<lambda>w. (case r of None \<Rightarrow> None | Some i \<Rightarrow> find (\<lambda>u. user_id u = i) (users w), w))"

text \<open>
  Reading a property of \<open>null\<close> throws a \<open>TypeError\<close>; the text is the one Node's engine
  gives.
\<close>

definition null_property :: "string \<Rightarrow> js_error" where
  "null_property p = TypeError (''Cannot read properties of null (reading '' @ [CHR 0x27] @ p @ [CHR 0x27] @ '')'')"

definition public_get_one :: "env \<Rightarrow> string \<Rightarrow> world \<Rightarrow> response \<times> world" where
  "public_get_one e i w =
     (case Monument_findById e i w of
        (Inl err, w1) \<Rightarrow> (Response 500 (Message (message err)), w1)
      | (Inr None, w1) \<Rightarrow> (Response 500 (Message (message (null_property ''user''))), w1)
      | (Inr (Some monument), w1) \<Rightarrow>
          (case User_findById e (user monument) w1 of
             (Inl err, w2) \<Rightarrow> (Response 500 (Message (message err)), w2)
           | (Inr None, w2) \<Rightarrow> (Response 500 (Message (message (null_property ''name''))), w2)
           | (Inr (Some u), w2) \<Rightarrow> (Response 200 (Combined monument (name u)), w2)))"

text \<open>\<open>GET /public/monument/:monumentId\<close> has the text of the gallery route of the same path.\<close>

definition public_gallery :: "env \<Rightarrow> string \<Rightarrow> world \<Rightarrow> response \<times> world" where
  "public_gallery e mid w =
     (case Gallery_find e mid w of
        (Inl err, w1) \<Rightarrow> (internal_error, w1)
      | (Inr galleryItems, w1) \<Rightarrow>
          (case sign_each e galleryItems [] w1 of
             (Inl err, w2) \<Rightarrow> (internal_error, w2)
           | (Inr updatedGalleryItems, w2) \<Rightarrow> (Response 200 (ItemsWithUrl updatedGalleryItems), w2)))"

section \<open>Detail page\<close>

text \<open>
  \<open>isNaN(parseFloat(v))\<close>. \<open>parseFloat\<close> prints its argument, skips leading white space
  and returns \<open>NaN\<close> exactly when no prefix of the rest is a decimal literal: an optional
  sign, then \<open>Infinity\<close>, a digit, or a dot and a digit. Of the white space code units
  those below 256 are modelled.
\<close>

definition isWhiteSpace :: "char \<Rightarrow> bool" where
  "isWhiteSpace c = (of_char c \<in> set [9, 10, 11, 12, 13, 32, 160 :: nat])"

definition unsigned_literal_start :: "string \<Rightarrow> bool" where
  "unsigned_literal_start s =
     (if startsWith s ''Infinity'' then True
      else (case s of
              [] \<Rightarrow> False
            | c # cs \<Rightarrow>
                if isDigit c then True
                else if c = CHR ''.'' then (case cs of [] \<Rightarrow> False | d # ds \<Rightarrow> isDigit d)
                else False))"

definition parseFloat_isNaN :: "string option \<Rightarrow> bool" where
  "parseFloat_isNaN v =
     (let trimmed = dropWhile isWhiteSpace (to_string v) in
      case trimmed of
        [] \<Rightarrow> True
      | c # cs \<Rightarrow>
          if c = CHR ''+'' then \<not> unsigned_literal_start cs
          else if c = CHR ''-'' then \<not> unsigned_literal_start cs
          else \<not> unsigned_literal_start trimmed)"

definition isValidLatLong :: "string \<Rightarrow> bool" where
  "isValidLatLong loc =
     (let lat = at_index (str_split CHR '','' loc) 0;
          long = at_index (str_split CHR '','' loc) 1
      in if \<not> parseFloat_isNaN lat \<and> \<not> parseFloat_isNaN long then True else False)"

text \<open>The props of the \<open>Map\<close> component; a prop is \<open>None\<close> when the expression is \<open>undefined\<close>.\<close>

record map_props =
  latitude :: "string option"
  longitude :: "string option"

text \<open>
  The map part of the page: the \<open>Map\<close> component, if one is rendered, and the address the
  GOOGLE MAPS button navigates to; the button is rendered unconditionally.
\<close>

record map_part =
  mapview :: "map_props option"
  button_href :: string

definition handleMapClick :: "string option \<Rightarrow> string" where
  "handleMapClick loc = ''https://maps.google.com/?q='' @ to_string loc"

definition render_map_part :: "monument \<Rightarrow> map_part" where
  "render_map_part m =
     \<lparr>mapview =
        (case location m of
           None \<Rightarrow> None
         | Some loc \<Rightarrow>
             if loc \<noteq> [] \<and> isValidLatLong loc
             then Some \<lparr>latitude = at_index (str_split CHR '','' loc) 0,
                        longitude = at_index (str_split CHR '','' loc) 1\<rparr>
             else None),
      button_href = handleMapClick (location m)\<rparr>"

text \<open>The page shows a gallery item in the video player when its key ends in \<open>.mp4\<close>.\<close>

definition shown_as_video :: "'a gallery_item_scheme \<Rightarrow> bool" where
  "shown_as_video item = endsWith (image item) ''.mp4''"

section \<open>Observations on a run\<close>

text \<open>The calls a handler issued between two states of the log.\<close>

definition issued :: "world \<Rightarrow> world \<Rightarrow> event list" where
  "issued w w' = drop (length (trace w)) (trace w')"

fun index_of :: "'a \<Rightarrow> 'a list \<Rightarrow> nat option" where
  "index_of a [] = None"
| "index_of a (x # xs) = (if x = a then Some 0 else map_option Suc (index_of a xs))"

text \<open>Both calls were issued, and the first one earlier.\<close>

definition issued_before :: "event \<Rightarrow> event \<Rightarrow> event list \<Rightarrow> bool" where
  "issued_before a b evs =
     (case index_of a evs of
        None \<Rightarrow> False
      | Some i \<Rightarrow> (case index_of b evs of None \<Rightarrow> False | Some j \<Rightarrow> i < j))"

text \<open>The stored gallery document with a given identifier.\<close>

definition stored :: "world \<Rightarrow> string \<Rightarrow> gallery_item option" where
  "stored w i = find (\<lambda>g. doc_id g = i) (gallery w)"

text \<open>The user document a monument's owner reference resolves to.\<close>

definition owner_of :: "world \<Rightarrow> monument \<Rightarrow> user_doc option" where
  "owner_of w m = (case user m of None \<Rightarrow> None | Some r \<Rightarrow> find (\<lambda>u. user_id u = r) (users w))"

text \<open>The storage signs the key of this document for one hour.\<close>

definition signable :: "env \<Rightarrow> gallery_item \<Rightarrow> bool" where
  "signable e g = (presign e (GetObjectCommand (image g)) 3600 \<noteq> None)"

text \<open>
  List-latest as the specification words it: the \<open>n\<close> most recently created records, with
  no filter on the verification status.
\<close>

definition spec_list_latest :: "nat \<Rightarrow> monument list \<Rightarrow> monument list" where
  "spec_list_latest n ms = take n (sort_createdAt_desc ms)"

section \<open>Example environments, requests and stores\<close>

text \<open>
  An environment in which nothing fails. Its encoder is a stand-in that keeps the first two
  bytes; its signer prints the key and the validity window into the address.
\<close>

definition env_ok :: env where
  "env_ok =
     \<lparr>random_draw = 234567,
      sharp_jpeg = (\<lambda>q b. Some (take 2 b)),
      s3_fails = (\<lambda>c. False),
      presign = (\<lambda>c t. case c of
                   GetObjectCommand k \<Rightarrow> Some (''https://bucket.example/'' @ k @ ''?expires='' @ string_of_nat t)
                 | _ \<Rightarrow> None),
      db_fails = (\<lambda>op. None),
      new_id = ''g9''\<rparr>"

definition clip :: upload_file where
  "clip = \<lparr>originalname = ''tour.final.mov'', mimetype = ''video/quicktime'', buffer = [1, 2, 3, 4]\<rparr>"

definition photo :: upload_file where
  "photo = \<lparr>originalname = ''taj.png'', mimetype = ''image/png'', buffer = [9, 8, 7]\<rparr>"

text \<open>An environment in which every request to the object storage fails.\<close>

definition env_s3_down :: env where
  "env_s3_down = env_ok\<lparr>s3_fails := (\<lambda>c. True)\<rparr>"

definition gate_photo :: gallery_item where
  "gate_photo =
     \<lparr>doc_id = ''g1'', monumentId = ''m1'', imgTitle = ''Front gate'', image = ''gate1000001.jpg''\<rparr>"

definition dome_tour :: gallery_item where
  "dome_tour =
     \<lparr>doc_id = ''g2'', monumentId = ''m1'', imgTitle = ''Dome tour'', image = ''dome1000002.mp4''\<rparr>"

definition fort_wall :: gallery_item where
  "fort_wall =
     \<lparr>doc_id = ''g3'', monumentId = ''m2'', imgTitle = ''Wall'', image = ''wall1000003.jpg''\<rparr>"

text \<open>A monument with the given identifier, status and creation time.\<close>

definition mon :: "string \<Rightarrow> int \<Rightarrow> int \<Rightarrow> monument" where
  "mon i s t =
     \<lparr>mon_id = i, title = ''Monument '' @ i, place = ''Agra'', state = ''UP'',
      location = Some [], status = s, user = Some ''u1'', createdAt = t\<rparr>"

definition taj :: monument where
  "taj =
     \<lparr>mon_id = ''m1'', title = ''Taj Mahal'', place = ''Agra'', state = ''UP'',
      location = Some ''27.1751,78.0421'', status = 1, user = Some ''u1'', createdAt = 6\<rparr>"

text \<open>Five monuments with statuses 1, 0, 1, 1, 0, created at increasing times.\<close>

definition five :: "monument list" where
  "five = [mon ''a'' 1 1, mon ''b'' 0 2, mon ''c'' 1 3, mon ''d'' 1 4, mon ''e'' 0 5]"

definition store1 :: world where
  "store1 =
     \<lparr>monuments = five,
      users = [\<lparr>user_id = ''u1'', name = ''Asha''\<rparr>],
      gallery = [gate_photo, dome_tour, fort_wall],
      bucket = map_of
        [(''gate1000001.jpg'', \<lparr>body = [5, 5], contentType = ''image/png''\<rparr>),
         (''dome1000002.mp4'', \<lparr>body = [6, 6, 6], contentType = ''video/mp4''\<rparr>),
         (''wall1000003.jpg'', \<lparr>body = [7], contentType = ''image/jpeg''\<rparr>)],
      trace = []\<rparr>"

text \<open>
  A second video upload named like the second gallery item, and a draw that repeats the
  number in that item's key.
\<close>

definition dome_again :: upload_file where
  "dome_again = \<lparr>originalname = ''dome.mov'', mimetype = ''video/quicktime'', buffer = [8, 8, 8]\<rparr>"

definition env_same_draw :: env where
  "env_same_draw = env_ok\<lparr>random_draw := 2\<rparr>"

text \<open>A monument whose owner is not in the user collection, and a store that holds it.\<close>

definition orphan :: monument where
  "orphan =
     \<lparr>mon_id = ''m7'', title = ''Old well'', place = ''Hampi'', state = ''KA'',
      location = Some ''not recorded'', status = 0, user = Some ''u7'', createdAt = 7\<rparr>"

definition store2 :: world where
  "store2 = store1\<lparr>monuments := [taj, orphan]\<rparr>"

section \<open>Facts about strings and the compressor\<close>

lemma str_split_not_Nil: "str_split sep s \<noteq> []"
  by (induction s) auto

lemma hd_str_split: "hd (str_split sep s) = takeWhile (\<lambda>c. c \<noteq> sep) s"
  by (induction s) auto

lemma digit_char_isDigit: "d < 10 \<Longrightarrow> isDigit (digit_char d)"
  unfolding isDigit_def digit_char_def by (rule nth_mem) simp

lemma string_of_nat_digits: "list_all isDigit (string_of_nat n)"
proof (induction n rule: string_of_nat.induct)
  case (1 n)
  show ?case
  proof (cases "n < 10")
    case True
    then show ?thesis
      by (subst string_of_nat.simps) (simp add: digit_char_isDigit)
  next
    case False
    with 1 show ?thesis
      by (subst string_of_nat.simps) (simp add: digit_char_isDigit)
  qed
qed

lemma string_of_nat_not_Nil: "string_of_nat n \<noteq> []"
  by (subst string_of_nat.simps) simp

lemma endsWith_append: "endsWith (s @ p) p"
  by (simp add: endsWith_def)

lemma endsWith_last:
  assumes "endsWith s p" "p \<noteq> []"
  shows "last s = last p"
proof -
  from assms have "s = take (length s - length p) s @ p"
    by (metis endsWith_def append_take_drop_id)
  then have "last s = last (take (length s - length p) s @ p)" by simp
  with assms(2) show ?thesis by simp
qed

lemma jpg_not_mp4: "\<not> endsWith (a @ b @ ''.jpg'') ''.mp4''"
proof
  assume "endsWith (a @ b @ ''.jpg'') ''.mp4''"
  then have "last (a @ b @ ''.jpg'') = last ''.mp4''" by (rule endsWith_last) simp
  then show False by simp
qed

lemma length_string_of_nat_step:
  "10 \<le> n \<Longrightarrow> length (string_of_nat n) = Suc (length (string_of_nat (n div 10)))"
  by (subst string_of_nat.simps) simp

lemma length_string_of_nat_base: "n < 10 \<Longrightarrow> length (string_of_nat n) = 1"
  by (subst string_of_nat.simps) simp

lemma seven_digits:
  assumes "1000000 \<le> n" "n < 2000000"
  shows "length (string_of_nat n) = 7"
proof -
  have "length (string_of_nat n) = Suc (length (string_of_nat (n div 10)))"
    using assms by (intro length_string_of_nat_step) arith
  also have "length (string_of_nat (n div 10)) = Suc (length (string_of_nat (n div 10 div 10)))"
    using assms by (intro length_string_of_nat_step) arith
  also have "length (string_of_nat (n div 10 div 10)) = Suc (length (string_of_nat (n div 10 div 10 div 10)))"
    using assms by (intro length_string_of_nat_step) arith
  also have "length (string_of_nat (n div 10 div 10 div 10)) = Suc (length (string_of_nat (n div 10 div 10 div 10 div 10)))"
    using assms by (intro length_string_of_nat_step) arith
  also have "length (string_of_nat (n div 10 div 10 div 10 div 10)) = Suc (length (string_of_nat (n div 10 div 10 div 10 div 10 div 10)))"
    using assms by (intro length_string_of_nat_step) arith
  also have "length (string_of_nat (n div 10 div 10 div 10 div 10 div 10)) = Suc (length (string_of_nat (n div 10 div 10 div 10 div 10 div 10 div 10)))"
    using assms by (intro length_string_of_nat_step) arith
  also have "length (string_of_nat (n div 10 div 10 div 10 div 10 div 10 div 10)) = 1"
    using assms by (intro length_string_of_nat_base) arith
  finally show ?thesis by simp
qed

lemma mp4_not_jpg: "\<not> endsWith (a @ b @ ''.mp4'') ''.jpg''"
proof
  assume "endsWith (a @ b @ ''.mp4'') ''.jpg''"
  then have "last (a @ b @ ''.mp4'') = last ''.jpg''" by (rule endsWith_last) simp
  then show False by simp
qed

lemma endsWith_append3: "endsWith (a @ b @ p) p"
  using endsWith_append[of "a @ b" p] by simp

lemma compress_cases:
  assumes "compressAndSaveFile e f = Inr (k, b)"
  shows "(startsWith (mimetype f) ''video'' \<and> b = buffer f \<and>
            k = takeWhile (\<lambda>c. c \<noteq> CHR ''.'') (originalname f) @ string_of_nat (random_draw e + 1000000) @ ''.mp4'')
       \<or> (\<not> startsWith (mimetype f) ''video'' \<and> sharp_jpeg e 30 (buffer f) = Some b \<and>
            k = takeWhile (\<lambda>c. c \<noteq> CHR ''.'') (originalname f) @ string_of_nat (random_draw e + 1000000) @ ''.jpg'')"
  using assms by (auto simp: compressAndSaveFile_def Let_def hd_str_split split: if_splits option.splits)

lemma compress_key_kind:
  assumes "compressAndSaveFile e f = Inr (k, b)"
  shows "endsWith k ''.mp4'' = startsWith (mimetype f) ''video''"
    and "endsWith k ''.jpg'' = (\<not> startsWith (mimetype f) ''video'')"
  using compress_cases[OF assms] jpg_not_mp4 mp4_not_jpg endsWith_append3
  by auto

lemma gallery_post_created:
  assumes "gallery_post e mid req w = (Response 201 p, w')"
  shows "\<exists>t f k b. body_imgTitle req = Some t \<and> t \<noteq> [] \<and> req_file req = Some f \<and>
           compressAndSaveFile e f = Inr (k, b) \<and>
           \<not> s3_fails e (PutObjectCommand k b (mimetype f)) \<and>
           db_fails e GalleryCreate = None \<and>
           new_id e \<notin> doc_id ` set (gallery w) \<and>
           p = Item \<lparr>doc_id = new_id e, monumentId = mid, imgTitle = t, image = k\<rparr> \<and>
           gallery w' = gallery w @ [\<lparr>doc_id = new_id e, monumentId = mid, imgTitle = t, image = k\<rparr>] \<and>
           bucket w' = (bucket w)(k \<mapsto> \<lparr>body = b, contentType = mimetype f\<rparr>) \<and>
           trace w' = trace w @ [S3 (PutObjectCommand k b (mimetype f)), Db GalleryCreate]"
  using assms
  by (auto simp: gallery_post_def internal_error_def s3_send_def Gallery_create_def issue_def Let_def
           split: option.splits sum.splits prod.splits if_splits)

lemma env_ok_sel:
  "random_draw env_ok = 234567"
  "sharp_jpeg env_ok q bs = Some (take 2 bs)"
  "s3_fails env_ok c = False"
  "presign env_ok (GetObjectCommand k) t = Some (''https://bucket.example/'' @ k @ ''?expires='' @ string_of_nat t)"
  "db_fails env_ok op = None"
  "new_id env_ok = ''g9''"
  by (simp_all add: env_ok_def)

lemma store1_sel:
  "gallery store1 = [gate_photo, dome_tour, fort_wall]"
  "monuments store1 = five"
  "users store1 = [\<lparr>user_id = ''u1'', name = ''Asha''\<rparr>]"
  "trace store1 = []"
  by (simp_all add: store1_def)

section \<open>Properties of the media compressor\<close>

text \<open>
  Claim C6. A video upload (declared media type starting with \<open>video\<close>) always comes back
  with its bytes unchanged under a name ending in \<open>.mp4\<close>; any other upload comes back, when
  the encoder succeeds, as the encoder's output at quality 30 under a name ending in
  \<open>.jpg\<close>, and as the error \<open>Error compressing file\<close> when the encoder throws. In both
  cases the name is the original name up to its first dot, followed by the decimal digits of
  the random number, which are seven digits for a draw below one million.
\<close>

theorem compressAndSaveFile_pair:
  "(startsWith (mimetype f) ''video'' \<longrightarrow>
      compressAndSaveFile e f =
        Inr (takeWhile (\<lambda>c. c \<noteq> CHR ''.'') (originalname f)
               @ string_of_nat (random_draw e + 1000000) @ ''.mp4'',
             buffer f))
   \<and> (\<not> startsWith (mimetype f) ''video'' \<longrightarrow>
        (\<forall>jpeg. sharp_jpeg e 30 (buffer f) = Some jpeg \<longrightarrow>
           compressAndSaveFile e f =
             Inr (takeWhile (\<lambda>c. c \<noteq> CHR ''.'') (originalname f)
                    @ string_of_nat (random_draw e + 1000000) @ ''.jpg'',
                  jpeg))
        \<and> (sharp_jpeg e 30 (buffer f) = None \<longrightarrow>
             compressAndSaveFile e f = Inl (Error ''Error compressing file'')))
   \<and> list_all isDigit (string_of_nat (random_draw e + 1000000))
   \<and> (random_draw e < 1000000 \<longrightarrow> length (string_of_nat (random_draw e + 1000000)) = 7)"
proof -
  have video: "startsWith (mimetype f) ''video'' \<longrightarrow>
      compressAndSaveFile e f =
        Inr (takeWhile (\<lambda>c. c \<noteq> CHR ''.'') (originalname f)
               @ string_of_nat (random_draw e + 1000000) @ ''.mp4'',
             buffer f)"
    by (simp add: compressAndSaveFile_def Let_def hd_str_split)
  have other: "\<not> startsWith (mimetype f) ''video'' \<longrightarrow>
        (\<forall>jpeg. sharp_jpeg e 30 (buffer f) = Some jpeg \<longrightarrow>
           compressAndSaveFile e f =
             Inr (takeWhile (\<lambda>c. c \<noteq> CHR ''.'') (originalname f)
                    @ string_of_nat (random_draw e + 1000000) @ ''.jpg'',
                  jpeg))
        \<and> (sharp_jpeg e 30 (buffer f) = None \<longrightarrow>
             compressAndSaveFile e f = Inl (Error ''Error compressing file''))"
    by (simp add: compressAndSaveFile_def Let_def hd_str_split)
  have seven: "random_draw e < 1000000 \<longrightarrow> length (string_of_nat (random_draw e + 1000000)) = 7"
    by (simp add: seven_digits)
  from video other seven show ?thesis
    by (simp only: string_of_nat_digits simp_thms)
qed

theorem compressAndSaveFile_pair_witness:
  "compressAndSaveFile env_ok clip = Inr (''tour1234567.mp4'', [1, 2, 3, 4])
   \<and> compressAndSaveFile env_ok photo = Inr (''taj1234567.jpg'', [9, 8])
   \<and> list_all isDigit ''1234567''"
  using compressAndSaveFile_pair[where e = env_ok and f = clip]
        compressAndSaveFile_pair[where e = env_ok and f = photo]
  by (simp add: env_ok_def clip_def photo_def startsWith_def string_of_nat.simps digit_char_def)

text \<open>
  Claim C10. A key the compressor returns ends in \<open>.mp4\<close> exactly when the declared media
  type starts with \<open>video\<close>, and in \<open>.jpg\<close> exactly when it does not. Hence, for an
  item created through an upload, the page's test on the key shows the item as video exactly
  when the upload had a video media type.
\<close>

theorem storage_key_extension:
  "(compressAndSaveFile e f = Inr (k, b) \<longrightarrow>
      (endsWith k ''.mp4'' \<longleftrightarrow> startsWith (mimetype f) ''video'')
      \<and> (endsWith k ''.jpg'' \<longleftrightarrow> \<not> startsWith (mimetype f) ''video''))
   \<and> (req_file req = Some f \<and> gallery_post e mid req w = (Response 201 (Item g), w') \<longrightarrow>
        (shown_as_video g \<longleftrightarrow> startsWith (mimetype f) ''video''))"
proof -
  have key: "compressAndSaveFile e f = Inr (k, b) \<longrightarrow>
      (endsWith k ''.mp4'' \<longleftrightarrow> startsWith (mimetype f) ''video'')
      \<and> (endsWith k ''.jpg'' \<longleftrightarrow> \<not> startsWith (mimetype f) ''video'')"
    using compress_key_kind by blast
  have post: "shown_as_video g \<longleftrightarrow> startsWith (mimetype f) ''video''"
    if "req_file req = Some f" and "gallery_post e mid req w = (Response 201 (Item g), w')"
  proof -
    from gallery_post_created[OF that(2)] that(1)
    obtain t k' b' where "compressAndSaveFile e f = Inr (k', b')"
      and "g = \<lparr>doc_id = new_id e, monumentId = mid, imgTitle = t, image = k'\<rparr>"
      by auto
    then show ?thesis
      using compress_key_kind(1)[of e f k' b'] by (simp add: shown_as_video_def)
  qed
  from key post show ?thesis by blast
qed

theorem storage_key_extension_witness:
  "compressAndSaveFile env_ok clip = Inr (''tour1234567.mp4'', [1, 2, 3, 4])
   \<and> fst (gallery_post env_ok ''m1'' \<lparr>body_imgTitle = Some ''Tour'', req_file = Some clip\<rparr> store1)
       = Response 201 (Item \<lparr>doc_id = ''g9'', monumentId = ''m1'', imgTitle = ''Tour'', image = ''tour1234567.mp4''\<rparr>)
   \<and> shown_as_video \<lparr>doc_id = ''g9'', monumentId = ''m1'', imgTitle = ''Tour'', image = ''tour1234567.mp4''\<rparr>
   \<and> endsWith ''tour1234567.mp4'' ''.mp4''
   \<and> startsWith (mimetype clip) ''video''"
proof -
  have comp: "compressAndSaveFile env_ok clip = Inr (''tour1234567.mp4'', [1, 2, 3, 4])"
    by (simp add: compressAndSaveFile_def env_ok_sel clip_def startsWith_def
          string_of_nat.simps digit_char_def)
  have resp: "fst (gallery_post env_ok ''m1'' \<lparr>body_imgTitle = Some ''Tour'', req_file = Some clip\<rparr> store1)
      = Response 201 (Item \<lparr>doc_id = ''g9'', monumentId = ''m1'', imgTitle = ''Tour'', image = ''tour1234567.mp4''\<rparr>)"
    by (simp add: gallery_post_def comp s3_send_def Gallery_create_def issue_def Let_def
          env_ok_sel store1_sel gate_photo_def dome_tour_def fort_wall_def)
  then have post: "gallery_post env_ok ''m1'' \<lparr>body_imgTitle = Some ''Tour'', req_file = Some clip\<rparr> store1
      = (Response 201 (Item \<lparr>doc_id = ''g9'', monumentId = ''m1'', imgTitle = ''Tour'', image = ''tour1234567.mp4''\<rparr>),
         snd (gallery_post env_ok ''m1'' \<lparr>body_imgTitle = Some ''Tour'', req_file = Some clip\<rparr> store1))"
    by (metis prod.collapse)
  have video: "startsWith (mimetype clip) ''video''"
    by (simp add: clip_def startsWith_def)
  from storage_key_extension[where e = env_ok and f = clip and k = "''tour1234567.mp4''"
      and b = "[1, 2, 3, 4]" and req = "\<lparr>body_imgTitle = Some ''Tour'', req_file = Some clip\<rparr>"
      and mid = "''m1''" and w = store1
      and g = "\<lparr>doc_id = ''g9'', monumentId = ''m1'', imgTitle = ''Tour'', image = ''tour1234567.mp4''\<rparr>"
      and w' = "snd (gallery_post env_ok ''m1'' \<lparr>body_imgTitle = Some ''Tour'', req_file = Some clip\<rparr> store1)"]
    comp post resp video
  show ?thesis by (simp del: fst_conv snd_conv)
qed

section \<open>Properties of the gallery routes\<close>

lemma issued_append: "trace w' = trace w @ evs \<Longrightarrow> issued w w' = evs"
  by (simp add: issued_def)

lemma issue_sel [simp]:
  "monuments (issue ev w) = monuments w"
  "users (issue ev w) = users w"
  "gallery (issue ev w) = gallery w"
  "bucket (issue ev w) = bucket w"
  "trace (issue ev w) = trace w @ [ev]"
  by (simp_all add: issue_def)

lemma find_remove1_distinct:
  assumes "distinct (map f xs)" and "find (\<lambda>x. f x = i) xs = Some g"
  shows "find (\<lambda>x. f x = i) (remove1 g xs) = None"
  using assms
proof (induction xs)
  case Nil
  then show ?case by simp
next
  case (Cons x xs)
  show ?case
  proof (cases "f x = i")
    case True
    with Cons.prems have "g = x" and "i \<notin> f ` set xs" by auto
    then show ?thesis by (auto simp: find_None_iff)
  next
    case False
    with Cons.prems have "find (\<lambda>x. f x = i) xs = Some g" and "g \<noteq> x"
      by (auto dest: find_Some_iff[THEN iffD1])
    with Cons False show ?thesis by simp
  qed
qed

lemma find_Some_mem: "find P xs = Some g \<Longrightarrow> g \<in> set xs \<and> P g"
  by (induction xs) (auto split: if_splits)

lemma gallery_post_rejected:
  assumes "\<not> truthy (body_imgTitle req) \<or> req_file req = None"
  shows "gallery_post e mid req w = (Response 400 (Message ''Send all required fields: imgTitle, image''), w)"
  using assms by (auto simp: gallery_post_def truthy_def split: option.splits)

lemma gallery_post_no_record:
  assumes "gallery_post e mid req w = (r, w')" and "code r \<noteq> 201"
  shows "gallery w' = gallery w"
  using assms
  by (auto simp: gallery_post_def internal_error_def s3_send_def Gallery_create_def issue_def Let_def
           split: option.splits sum.splits prod.splits if_splits s3_command.splits)

lemma gallery_post_put_fails:
  assumes "body_imgTitle req = Some t" "t \<noteq> []" "req_file req = Some f"
    and "compressAndSaveFile e f = Inr (k, b)"
    and "s3_fails e (PutObjectCommand k b (mimetype f))"
  shows "gallery_post e mid req w = (internal_error, issue (S3 (PutObjectCommand k b (mimetype f))) w)"
  using assms by (simp add: gallery_post_def s3_send_def Let_def)

lemma gallery_delete_found:
  assumes "stored w i = Some g" and "db_fails e (GalleryFindByIdAndDelete i) = None"
  shows "gallery_delete e i w =
           (if s3_fails e (DeleteObjectCommand (image g))
            then (internal_error,
                  w\<lparr>gallery := remove1 g (gallery w),
                    trace := trace w @ [Db (GalleryFindByIdAndDelete i), S3 (DeleteObjectCommand (image g))]\<rparr>)
            else (Response 200 (Message ''Gallery item deleted successfully''),
                  w\<lparr>gallery := remove1 g (gallery w),
                    bucket := (bucket w)(image g := None),
                    trace := trace w @ [Db (GalleryFindByIdAndDelete i), S3 (DeleteObjectCommand (image g))]\<rparr>))"
  using assms
  by (simp add: gallery_delete_def Gallery_findByIdAndDelete_def db_call_def s3_send_def issue_def
        stored_def Let_def)

lemma gallery_delete_missing:
  assumes "stored w i = None" and "db_fails e (GalleryFindByIdAndDelete i) = None"
  shows "gallery_delete e i w =
           (Response 404 (Message ''Gallery item not found''), issue (Db (GalleryFindByIdAndDelete i)) w)"
  using assms
  by (simp add: gallery_delete_def Gallery_findByIdAndDelete_def db_call_def stored_def Let_def)

lemma gallery_delete_missing_code:
  assumes "stored w i = None" and "db_fails e (GalleryFindByIdAndDelete i) = None"
  shows "fst (gallery_delete e i w) = Response 404 (Message ''Gallery item not found'')"
  using gallery_delete_missing[OF assms] by simp


lemma gallery_post_ok:
  assumes "body_imgTitle req = Some t" "t \<noteq> []" "req_file req = Some f"
    and "compressAndSaveFile e f = Inr (k, b)"
    and "\<not> s3_fails e (PutObjectCommand k b (mimetype f))"
    and "db_fails e GalleryCreate = None"
    and "new_id e \<notin> doc_id ` set (gallery w)"
  shows "gallery_post e mid req w =
           (Response 201 (Item \<lparr>doc_id = new_id e, monumentId = mid, imgTitle = t, image = k\<rparr>),
            w\<lparr>gallery := gallery w @ [\<lparr>doc_id = new_id e, monumentId = mid, imgTitle = t, image = k\<rparr>],
              bucket := (bucket w)(k \<mapsto> \<lparr>body = b, contentType = mimetype f\<rparr>),
              trace := trace w @ [S3 (PutObjectCommand k b (mimetype f)), Db GalleryCreate]\<rparr>)"
  using assms by (simp add: gallery_post_def s3_send_def Gallery_create_def issue_def Let_def)

lemma store1_bucket:
  "bucket store1 ''gate1000001.jpg'' = Some \<lparr>body = [5, 5], contentType = ''image/png''\<rparr>"
  "bucket store1 ''tour1234567.mp4'' = None"
  by (simp_all add: store1_def)

lemma store1_stored:
  "stored store1 ''g1'' = Some gate_photo"
  "stored store1 ''g2'' = Some dome_tour"
  "stored store1 ''g9'' = None"
  "distinct (map doc_id (gallery store1))"
  "''g9'' \<notin> doc_id ` set (gallery store1)"
  by (simp_all add: stored_def store1_sel gate_photo_def dome_tour_def fort_wall_def)

lemma env_s3_down_sel:
  "s3_fails env_s3_down c = True"
  "db_fails env_s3_down op = None"
  "random_draw env_s3_down = 234567"
  "sharp_jpeg env_s3_down q bs = Some (take 2 bs)"
  "new_id env_s3_down = ''g9''"
  by (simp_all add: env_s3_down_def env_ok_def)

lemma clip_compressed:
  "compressAndSaveFile env_ok clip = Inr (''tour1234567.mp4'', [1, 2, 3, 4])"
  "compressAndSaveFile env_s3_down clip = Inr (''tour1234567.mp4'', [1, 2, 3, 4])"
  by (simp_all add: compressAndSaveFile_def env_ok_sel env_s3_down_sel clip_def startsWith_def
        string_of_nat.simps digit_char_def)

text \<open>
  Claim C4. A create request whose title is missing (or empty) or whose file is missing is
  answered with status 400 and leaves both stores and the log as they were. When both are
  present, a run that changes the gallery collection has written the compressed object to
  the storage before, under the key the new document holds; a run whose storage write fails
  answers 500 and creates no document; and a run in which nothing fails answers 201 with the
  new document.
\<close>

theorem gallery_post_validation:
  "(\<not> truthy (body_imgTitle req) \<or> req_file req = None \<longrightarrow>
      gallery_post e mid req w =
        (Response 400 (Message ''Send all required fields: imgTitle, image''), w))
   \<and> (truthy (body_imgTitle req) \<and> req_file req = Some f
        \<and> gallery_post e mid req w = (r, w') \<and> gallery w' \<noteq> gallery w \<longrightarrow>
        (\<exists>k b. compressAndSaveFile e f = Inr (k, b)
           \<and> \<not> s3_fails e (PutObjectCommand k b (mimetype f))
           \<and> bucket w' k = Some \<lparr>body = b, contentType = mimetype f\<rparr>
           \<and> issued w w' = [S3 (PutObjectCommand k b (mimetype f)), Db GalleryCreate]
           \<and> r = Response 201 (Item \<lparr>doc_id = new_id e, monumentId = mid,
                                      imgTitle = to_string (body_imgTitle req), image = k\<rparr>)
           \<and> gallery w' = gallery w @ [\<lparr>doc_id = new_id e, monumentId = mid,
                                         imgTitle = to_string (body_imgTitle req), image = k\<rparr>]))
   \<and> (truthy (body_imgTitle req) \<and> req_file req = Some f
        \<and> compressAndSaveFile e f = Inr (kk, bb)
        \<and> s3_fails e (PutObjectCommand kk bb (mimetype f)) \<longrightarrow>
        fst (gallery_post e mid req w) = Response 500 (Message ''Internal Server Error'')
        \<and> gallery (snd (gallery_post e mid req w)) = gallery w
        \<and> bucket (snd (gallery_post e mid req w)) = bucket w)
   \<and> (truthy (body_imgTitle req) \<and> req_file req = Some f
        \<and> compressAndSaveFile e f = Inr (kk, bb)
        \<and> \<not> s3_fails e (PutObjectCommand kk bb (mimetype f))
        \<and> db_fails e GalleryCreate = None \<and> new_id e \<notin> doc_id ` set (gallery w) \<longrightarrow>
        fst (gallery_post e mid req w) =
          Response 201 (Item \<lparr>doc_id = new_id e, monumentId = mid,
                               imgTitle = to_string (body_imgTitle req), image = kk\<rparr>))"
proof -
  have rejected: "\<not> truthy (body_imgTitle req) \<or> req_file req = None \<longrightarrow>
      gallery_post e mid req w =
        (Response 400 (Message ''Send all required fields: imgTitle, image''), w)"
    using gallery_post_rejected by blast
  have created: "\<exists>k b. compressAndSaveFile e f = Inr (k, b)
           \<and> \<not> s3_fails e (PutObjectCommand k b (mimetype f))
           \<and> bucket w' k = Some \<lparr>body = b, contentType = mimetype f\<rparr>
           \<and> issued w w' = [S3 (PutObjectCommand k b (mimetype f)), Db GalleryCreate]
           \<and> r = Response 201 (Item \<lparr>doc_id = new_id e, monumentId = mid,
                                      imgTitle = to_string (body_imgTitle req), image = k\<rparr>)
           \<and> gallery w' = gallery w @ [\<lparr>doc_id = new_id e, monumentId = mid,
                                         imgTitle = to_string (body_imgTitle req), image = k\<rparr>]"
    if "truthy (body_imgTitle req)" "req_file req = Some f"
      "gallery_post e mid req w = (r, w')" "gallery w' \<noteq> gallery w"
  proof -
    from gallery_post_no_record[OF that(3)] that(4) have "code r = 201" by blast
    then obtain p where "r = Response 201 p" by (cases r) simp
    with that(3) have "gallery_post e mid req w = (Response 201 p, w')" by simp
    from gallery_post_created[OF this] that(2) \<open>r = Response 201 p\<close>
    show ?thesis by (auto simp: to_string_def issued_append)
  qed
  have put_failed: "fst (gallery_post e mid req w) = Response 500 (Message ''Internal Server Error'')
        \<and> gallery (snd (gallery_post e mid req w)) = gallery w
        \<and> bucket (snd (gallery_post e mid req w)) = bucket w"
    if "truthy (body_imgTitle req)" "req_file req = Some f"
      "compressAndSaveFile e f = Inr (kk, bb)" "s3_fails e (PutObjectCommand kk bb (mimetype f))"
  proof -
    from that(1) obtain t where "body_imgTitle req = Some t" "t \<noteq> []"
      by (auto simp: truthy_def split: option.splits)
    from gallery_post_put_fails[OF this that(2,3,4)] show ?thesis
      by (simp add: internal_error_def)
  qed
  have all_fine: "fst (gallery_post e mid req w) =
          Response 201 (Item \<lparr>doc_id = new_id e, monumentId = mid,
                               imgTitle = to_string (body_imgTitle req), image = kk\<rparr>)"
    if "truthy (body_imgTitle req)" "req_file req = Some f"
      "compressAndSaveFile e f = Inr (kk, bb)" "\<not> s3_fails e (PutObjectCommand kk bb (mimetype f))"
      "db_fails e GalleryCreate = None" "new_id e \<notin> doc_id ` set (gallery w)"
  proof -
    from that(1) obtain t where t: "body_imgTitle req = Some t" "t \<noteq> []"
      by (auto simp: truthy_def split: option.splits)
    from gallery_post_ok[OF this that(2,3,4,5,6)] t(1) show ?thesis
      by (simp add: to_string_def)
  qed
  from rejected created put_failed all_fine show ?thesis by blast
qed


theorem gallery_post_validation_witness:
  "gallery_post env_ok ''m1'' \<lparr>body_imgTitle = Some ''Tour'', req_file = None\<rparr> store1
     = (Response 400 (Message ''Send all required fields: imgTitle, image''), store1)
   \<and> gallery_post env_ok ''m1'' \<lparr>body_imgTitle = None, req_file = Some clip\<rparr> store1
     = (Response 400 (Message ''Send all required fields: imgTitle, image''), store1)
   \<and> fst (gallery_post env_ok ''m1'' \<lparr>body_imgTitle = Some ''Tour'', req_file = Some clip\<rparr> store1)
     = Response 201 (Item \<lparr>doc_id = ''g9'', monumentId = ''m1'', imgTitle = ''Tour'',
                          image = ''tour1234567.mp4''\<rparr>)
   \<and> fst (gallery_post env_s3_down ''m1'' \<lparr>body_imgTitle = Some ''Tour'', req_file = Some clip\<rparr> store1)
     = Response 500 (Message ''Internal Server Error'')
   \<and> gallery (snd (gallery_post env_s3_down ''m1'' \<lparr>body_imgTitle = Some ''Tour'', req_file = Some clip\<rparr> store1))
     = gallery store1"
proof -
  have no_file: "gallery_post env_ok ''m1'' \<lparr>body_imgTitle = Some ''Tour'', req_file = None\<rparr> store1
     = (Response 400 (Message ''Send all required fields: imgTitle, image''), store1)"
    using gallery_post_validation[where e = env_ok and mid = "''m1''" and w = store1
        and req = "\<lparr>body_imgTitle = Some ''Tour'', req_file = None\<rparr>"
        and f = clip and r = "Response 400 (Message [])" and w' = store1
        and kk = "[]" and bb = "[]"]
    by simp
  have no_title: "gallery_post env_ok ''m1'' \<lparr>body_imgTitle = None, req_file = Some clip\<rparr> store1
     = (Response 400 (Message ''Send all required fields: imgTitle, image''), store1)"
    using gallery_post_validation[where e = env_ok and mid = "''m1''" and w = store1
        and req = "\<lparr>body_imgTitle = None, req_file = Some clip\<rparr>"
        and f = clip and r = "Response 400 (Message [])" and w' = store1
        and kk = "[]" and bb = "[]"]
    by (simp add: truthy_def)
  have created: "fst (gallery_post env_ok ''m1'' \<lparr>body_imgTitle = Some ''Tour'', req_file = Some clip\<rparr> store1)
     = Response 201 (Item \<lparr>doc_id = ''g9'', monumentId = ''m1'', imgTitle = ''Tour'',
                          image = ''tour1234567.mp4''\<rparr>)"
    using gallery_post_validation[where e = env_ok and mid = "''m1''" and w = store1
        and req = "\<lparr>body_imgTitle = Some ''Tour'', req_file = Some clip\<rparr>"
        and f = clip and r = "Response 400 (Message [])" and w' = store1
        and kk = "''tour1234567.mp4''" and bb = "[1, 2, 3, 4]"]
    by (simp add: truthy_def to_string_def clip_compressed env_ok_sel store1_stored)
  have storage_down: "fst (gallery_post env_s3_down ''m1'' \<lparr>body_imgTitle = Some ''Tour'', req_file = Some clip\<rparr> store1)
       = Response 500 (Message ''Internal Server Error'')
     \<and> gallery (snd (gallery_post env_s3_down ''m1'' \<lparr>body_imgTitle = Some ''Tour'', req_file = Some clip\<rparr> store1))
       = gallery store1"
    using gallery_post_validation[where e = env_s3_down and mid = "''m1''" and w = store1
        and req = "\<lparr>body_imgTitle = Some ''Tour'', req_file = Some clip\<rparr>"
        and f = clip and r = "Response 400 (Message [])" and w' = store1
        and kk = "''tour1234567.mp4''" and bb = "[1, 2, 3, 4]"]
    by (simp add: truthy_def clip_compressed env_s3_down_sel)
  from no_file no_title created storage_down show ?thesis by blast
qed

text \<open>
  Claim C9. When the document exists and the deletion of its storage object fails, the
  delete handler answers 500 although the document is already gone from the collection: the
  collection has changed, the storage has not, and the same request sent again answers 404.
\<close>

theorem gallery_delete_storage_failure:
  assumes "stored w i = Some g"
    and "distinct (map doc_id (gallery w))"
    and "db_fails e (GalleryFindByIdAndDelete i) = None"
    and "s3_fails e (DeleteObjectCommand (image g))"
  shows "fst (gallery_delete e i w) = Response 500 (Message ''Internal Server Error'')
       \<and> stored (snd (gallery_delete e i w)) i = None
       \<and> gallery (snd (gallery_delete e i w)) = remove1 g (gallery w)
       \<and> gallery (snd (gallery_delete e i w)) \<noteq> gallery w
       \<and> bucket (snd (gallery_delete e i w)) = bucket w
       \<and> fst (gallery_delete e i (snd (gallery_delete e i w)))
           = Response 404 (Message ''Gallery item not found'')"
proof -
  let ?w' = "snd (gallery_delete e i w)"
  from gallery_delete_found[OF assms(1,3)] assms(4)
  have run: "gallery_delete e i w =
      (internal_error,
       w\<lparr>gallery := remove1 g (gallery w),
         trace := trace w @ [Db (GalleryFindByIdAndDelete i), S3 (DeleteObjectCommand (image g))]\<rparr>)"
    by simp
  then have resp: "fst (gallery_delete e i w) = Response 500 (Message ''Internal Server Error'')"
    by (simp add: internal_error_def)
  from run have gal: "gallery ?w' = remove1 g (gallery w)" and buck: "bucket ?w' = bucket w"
    by simp_all
  from assms(1) have mem: "g \<in> set (gallery w)"
    unfolding stored_def by (auto dest: find_Some_mem)
  then have "length (remove1 g (gallery w)) < length (gallery w)"
    by (simp add: length_remove1) (cases "gallery w"; simp)
  with gal have changed: "gallery ?w' \<noteq> gallery w" by auto
  from assms(1,2) gal have gone: "stored ?w' i = None"
    unfolding stored_def by (simp add: find_remove1_distinct)
  from gallery_delete_missing_code[OF gone assms(3)]
  have again: "fst (gallery_delete e i ?w') = Response 404 (Message ''Gallery item not found'')" .
  from resp gone gal changed buck again show ?thesis by blast
qed

theorem gallery_delete_storage_failure_witness:
  "stored store1 ''g1'' = Some gate_photo
   \<and> fst (gallery_delete env_s3_down ''g1'' store1) = Response 500 (Message ''Internal Server Error'')
   \<and> gallery (snd (gallery_delete env_s3_down ''g1'' store1)) = [dome_tour, fort_wall]
   \<and> stored (snd (gallery_delete env_s3_down ''g1'' store1)) ''g1'' = None
   \<and> fst (gallery_delete env_s3_down ''g1'' (snd (gallery_delete env_s3_down ''g1'' store1)))
       = Response 404 (Message ''Gallery item not found'')"
proof -
  have found: "stored store1 ''g1'' = Some gate_photo"
    by (rule store1_stored)
  have ids: "distinct (map doc_id (gallery store1))"
    by (rule store1_stored)
  have db: "db_fails env_s3_down (GalleryFindByIdAndDelete ''g1'') = None"
    by (rule env_s3_down_sel)
  have s3: "s3_fails env_s3_down (DeleteObjectCommand (image gate_photo))"
    by (simp add: env_s3_down_sel)
  from gallery_delete_storage_failure[OF found ids db s3] found
  show ?thesis by (simp add: store1_sel)
qed

text \<open>
  Claim C2, as the code has it. When the document exists, the delete handler issues exactly
  two calls, in this order: \<open>findByIdAndDelete\<close> on the collection, which removes the
  document, and then the deletion of the storage object. The document is gone whatever the
  storage answers; when the storage deletion succeeds the object is gone too and the answer
  is 200.
\<close>

theorem gallery_delete_order:
  assumes "stored w i = Some g"
    and "db_fails e (GalleryFindByIdAndDelete i) = None"
  shows "issued w (snd (gallery_delete e i w))
           = [Db (GalleryFindByIdAndDelete i), S3 (DeleteObjectCommand (image g))]
       \<and> issued_before (Db (GalleryFindByIdAndDelete i)) (S3 (DeleteObjectCommand (image g)))
           (issued w (snd (gallery_delete e i w)))
       \<and> gallery (snd (gallery_delete e i w)) = remove1 g (gallery w)
       \<and> (\<not> s3_fails e (DeleteObjectCommand (image g)) \<longrightarrow>
            fst (gallery_delete e i w) = Response 200 (Message ''Gallery item deleted successfully'')
            \<and> bucket (snd (gallery_delete e i w)) = (bucket w)(image g := None))"
proof -
  have tr: "trace (snd (gallery_delete e i w))
      = trace w @ [Db (GalleryFindByIdAndDelete i), S3 (DeleteObjectCommand (image g))]"
    by (simp add: gallery_delete_found[OF assms])
  then have evs: "issued w (snd (gallery_delete e i w))
      = [Db (GalleryFindByIdAndDelete i), S3 (DeleteObjectCommand (image g))]"
    by (rule issued_append)
  have ord: "issued_before (Db (GalleryFindByIdAndDelete i)) (S3 (DeleteObjectCommand (image g)))
      (issued w (snd (gallery_delete e i w)))"
    by (simp add: evs issued_before_def)
  have gal: "gallery (snd (gallery_delete e i w)) = remove1 g (gallery w)"
    by (simp add: gallery_delete_found[OF assms])
  have ok: "\<not> s3_fails e (DeleteObjectCommand (image g)) \<longrightarrow>
      fst (gallery_delete e i w) = Response 200 (Message ''Gallery item deleted successfully'')
      \<and> bucket (snd (gallery_delete e i w)) = (bucket w)(image g := None)"
    by (simp add: gallery_delete_found[OF assms])
  from evs ord gal ok show ?thesis by blast
qed

theorem gallery_delete_order_witness:
  "stored store1 ''g1'' = Some gate_photo
   \<and> issued store1 (snd (gallery_delete env_ok ''g1'' store1))
       = [Db (GalleryFindByIdAndDelete ''g1''), S3 (DeleteObjectCommand ''gate1000001.jpg'')]
   \<and> gallery (snd (gallery_delete env_ok ''g1'' store1)) = [dome_tour, fort_wall]
   \<and> fst (gallery_delete env_ok ''g1'' store1) = Response 200 (Message ''Gallery item deleted successfully'')
   \<and> bucket (snd (gallery_delete env_ok ''g1'' store1)) ''gate1000001.jpg'' = None"
  using gallery_delete_order[where w = store1 and i = "''g1''" and g = gate_photo and e = env_ok]
  by (simp add: store1_stored env_ok_sel store1_sel gate_photo_def)

text \<open>
  The order claim C2 states (storage object first, document second) fails on the first
  gallery item of the example store: the storage deletion is not issued before the
  collection call, and with the storage down the document is removed while its object
  stays.
\<close>

theorem gallery_delete_order_counterexample:
  "issued store1 (snd (gallery_delete env_ok ''g1'' store1))
       = [Db (GalleryFindByIdAndDelete ''g1''), S3 (DeleteObjectCommand ''gate1000001.jpg'')]
   \<and> \<not> issued_before (S3 (DeleteObjectCommand ''gate1000001.jpg'')) (Db (GalleryFindByIdAndDelete ''g1''))
         (issued store1 (snd (gallery_delete env_ok ''g1'' store1)))
   \<and> stored (snd (gallery_delete env_s3_down ''g1'' store1)) ''g1'' = None
   \<and> bucket (snd (gallery_delete env_s3_down ''g1'' store1)) ''gate1000001.jpg''
       = Some \<lparr>body = [5, 5], contentType = ''image/png''\<rparr>"
proof -
  have ok: "gallery_delete env_ok ''g1'' store1 =
      (Response 200 (Message ''Gallery item deleted successfully''),
       store1\<lparr>gallery := remove1 gate_photo (gallery store1),
         bucket := (bucket store1)(image gate_photo := None),
         trace := trace store1 @ [Db (GalleryFindByIdAndDelete ''g1''), S3 (DeleteObjectCommand (image gate_photo))]\<rparr>)"
    using gallery_delete_found[of store1 "''g1''" gate_photo env_ok]
    by (simp add: store1_stored env_ok_sel)
  have down: "gallery_delete env_s3_down ''g1'' store1 =
      (internal_error,
       store1\<lparr>gallery := remove1 gate_photo (gallery store1),
         trace := trace store1 @ [Db (GalleryFindByIdAndDelete ''g1''), S3 (DeleteObjectCommand (image gate_photo))]\<rparr>)"
    using gallery_delete_found[of store1 "''g1''" gate_photo env_s3_down]
    by (simp add: store1_stored env_s3_down_sel)
  have evs: "issued store1 (snd (gallery_delete env_ok ''g1'' store1))
       = [Db (GalleryFindByIdAndDelete ''g1''), S3 (DeleteObjectCommand ''gate1000001.jpg'')]"
    by (simp add: ok issued_def store1_sel gate_photo_def)
  have not_before: "\<not> issued_before (S3 (DeleteObjectCommand ''gate1000001.jpg'')) (Db (GalleryFindByIdAndDelete ''g1''))
         (issued store1 (snd (gallery_delete env_ok ''g1'' store1)))"
    by (simp add: evs issued_before_def)
  have gone: "stored (snd (gallery_delete env_s3_down ''g1'' store1)) ''g1'' = None"
    by (simp add: down stored_def store1_sel gate_photo_def dome_tour_def fort_wall_def)
  have kept: "bucket (snd (gallery_delete env_s3_down ''g1'' store1)) ''gate1000001.jpg''
       = Some \<lparr>body = [5, 5], contentType = ''image/png''\<rparr>"
    by (simp add: down store1_bucket)
  from evs not_before gone kept show ?thesis by blast
qed

lemma find_map_replace:
  assumes "find (\<lambda>x. f x = i) xs = Some g" and "f g' = i"
  shows "find (\<lambda>x. f x = i) (map (\<lambda>x. if f x = i then g' else x) xs) = Some g'"
  using assms by (induction xs) (auto split: if_splits)

lemma stored_doc_id: "stored w i = Some g \<Longrightarrow> doc_id g = i"
  unfolding stored_def by (auto dest: find_Some_mem)

lemma gallery_put_replace:
  assumes "stored w i = Some g"
    and "db_fails e (GalleryFindById i) = None"
    and "req_file req = Some f"
    and "compressAndSaveFile e f = Inr (k, b)"
    and "\<not> s3_fails e (PutObjectCommand k b (mimetype f))"
  shows "gallery_put e i req w =
     (if s3_fails e (DeleteObjectCommand (image g))
      then (internal_error,
            w\<lparr>bucket := (bucket w)(k \<mapsto> \<lparr>body = b, contentType = mimetype f\<rparr>),
              trace := trace w @ [Db (GalleryFindById i), S3 (PutObjectCommand k b (mimetype f)),
                                  S3 (DeleteObjectCommand (image g))]\<rparr>)
      else (case db_fails e (GallerySave i) of
              Some m \<Rightarrow>
                (internal_error,
                 w\<lparr>bucket := ((bucket w)(k \<mapsto> \<lparr>body = b, contentType = mimetype f\<rparr>))(image g := None),
                   trace := trace w @ [Db (GalleryFindById i), S3 (PutObjectCommand k b (mimetype f)),
                                       S3 (DeleteObjectCommand (image g)), Db (GallerySave i)]\<rparr>)
            | None \<Rightarrow>
                (Response 200 (Item (if truthy (body_imgTitle req)
                                     then g\<lparr>image := k, imgTitle := to_string (body_imgTitle req)\<rparr>
                                     else g\<lparr>image := k\<rparr>)),
                 w\<lparr>gallery := map (\<lambda>x. if doc_id x = i
                                         then (if truthy (body_imgTitle req)
                                               then g\<lparr>image := k, imgTitle := to_string (body_imgTitle req)\<rparr>
                                               else g\<lparr>image := k\<rparr>)
                                         else x) (gallery w),
                   bucket := ((bucket w)(k \<mapsto> \<lparr>body = b, contentType = mimetype f\<rparr>))(image g := None),
                   trace := trace w @ [Db (GalleryFindById i), S3 (PutObjectCommand k b (mimetype f)),
                                       S3 (DeleteObjectCommand (image g)), Db (GallerySave i)]\<rparr>)))"
proof -
  from assms(1) have id: "doc_id g = i" by (rule stored_doc_id)
  from assms(1) have found: "find (\<lambda>g. doc_id g = i) (gallery w) = Some g"
    by (simp add: stored_def)
  show ?thesis
    using assms(2-5) found id
    by (simp add: gallery_put_def Gallery_findById_def replace_file_def Gallery_save_def
          db_call_def s3_send_def issue_def Let_def split: option.splits)
qed


lemma dome_again_compressed:
  "compressAndSaveFile env_same_draw dome_again = Inr (''dome1000002.mp4'', [8, 8, 8])"
  by (simp add: compressAndSaveFile_def env_same_draw_def env_ok_def dome_again_def
        startsWith_def string_of_nat.simps digit_char_def)

lemma env_same_draw_sel:
  "s3_fails env_same_draw c = False"
  "db_fails env_same_draw op = None"
  by (simp_all add: env_same_draw_def env_ok_def)

text \<open>
  Claim C5, as the code has it. On an existing document, with a new file supplied and the
  lookup and the storage write succeeding, the handler writes the new object under the
  generated key and then asks for the deletion of the previous key. If that deletion fails
  the update does not succeed: the answer is 500 and the document is left as it was. If it
  succeeds and the document is saved, the answer is 200; the stored document holds the new
  key and, when a title was supplied, the new title, its other fields unchanged; the
  previous key holds no object; and the key of the document resolves to the new content
  provided the generated key differs from the previous one.
\<close>

theorem gallery_put_new_file:
  assumes "stored w i = Some g"
    and "db_fails e (GalleryFindById i) = None"
    and "req_file req = Some f"
    and "compressAndSaveFile e f = Inr (k, b)"
    and "\<not> s3_fails e (PutObjectCommand k b (mimetype f))"
  shows "(s3_fails e (DeleteObjectCommand (image g)) \<longrightarrow>
            fst (gallery_put e i req w) = Response 500 (Message ''Internal Server Error'')
            \<and> gallery (snd (gallery_put e i req w)) = gallery w
            \<and> bucket (snd (gallery_put e i req w)) k = Some \<lparr>body = b, contentType = mimetype f\<rparr>)
       \<and> (\<not> s3_fails e (DeleteObjectCommand (image g)) \<and> db_fails e (GallerySave i) = None \<longrightarrow>
            (\<exists>g'. fst (gallery_put e i req w) = Response 200 (Item g')
               \<and> stored (snd (gallery_put e i req w)) i = Some g'
               \<and> image g' = k
               \<and> imgTitle g' = (if truthy (body_imgTitle req) then to_string (body_imgTitle req)
                                 else imgTitle g)
               \<and> doc_id g' = doc_id g \<and> monumentId g' = monumentId g)
            \<and> issued w (snd (gallery_put e i req w))
                = [Db (GalleryFindById i), S3 (PutObjectCommand k b (mimetype f)),
                   S3 (DeleteObjectCommand (image g)), Db (GallerySave i)]
            \<and> issued_before (S3 (PutObjectCommand k b (mimetype f))) (S3 (DeleteObjectCommand (image g)))
                (issued w (snd (gallery_put e i req w)))
            \<and> bucket (snd (gallery_put e i req w)) (image g) = None
            \<and> (k \<noteq> image g \<longrightarrow>
                 bucket (snd (gallery_put e i req w)) k = Some \<lparr>body = b, contentType = mimetype f\<rparr>))"
proof -
  let ?w' = "snd (gallery_put e i req w)"
  let ?g' = "if truthy (body_imgTitle req)
             then g\<lparr>image := k, imgTitle := to_string (body_imgTitle req)\<rparr> else g\<lparr>image := k\<rparr>"
  note run = gallery_put_replace[OF assms]
  from assms(1) have id: "doc_id g = i" by (rule stored_doc_id)
  have failed: "fst (gallery_put e i req w) = Response 500 (Message ''Internal Server Error'')
            \<and> gallery ?w' = gallery w
            \<and> bucket ?w' k = Some \<lparr>body = b, contentType = mimetype f\<rparr>"
    if "s3_fails e (DeleteObjectCommand (image g))"
    using that by (simp add: run internal_error_def)
  have saved: "(\<exists>g'. fst (gallery_put e i req w) = Response 200 (Item g')
               \<and> stored ?w' i = Some g'
               \<and> image g' = k
               \<and> imgTitle g' = (if truthy (body_imgTitle req) then to_string (body_imgTitle req)
                                 else imgTitle g)
               \<and> doc_id g' = doc_id g \<and> monumentId g' = monumentId g)
            \<and> issued w ?w'
                = [Db (GalleryFindById i), S3 (PutObjectCommand k b (mimetype f)),
                   S3 (DeleteObjectCommand (image g)), Db (GallerySave i)]
            \<and> issued_before (S3 (PutObjectCommand k b (mimetype f))) (S3 (DeleteObjectCommand (image g)))
                (issued w ?w')
            \<and> bucket ?w' (image g) = None
            \<and> (k \<noteq> image g \<longrightarrow> bucket ?w' k = Some \<lparr>body = b, contentType = mimetype f\<rparr>)"
    if ok: "\<not> s3_fails e (DeleteObjectCommand (image g))" "db_fails e (GallerySave i) = None"
  proof -
    have resp: "fst (gallery_put e i req w) = Response 200 (Item ?g')"
      using ok by (simp add: run)
    have gal: "gallery ?w' = map (\<lambda>x. if doc_id x = i then ?g' else x) (gallery w)"
      using ok by (simp add: run)
    have "doc_id ?g' = i" using id by simp
    with assms(1) have st: "stored ?w' i = Some ?g'"
      unfolding stored_def gal by (intro find_map_replace) simp_all
    have fields: "image ?g' = k"
        "imgTitle ?g' = (if truthy (body_imgTitle req) then to_string (body_imgTitle req) else imgTitle g)"
        "doc_id ?g' = doc_id g" "monumentId ?g' = monumentId g"
      by simp_all
    have tr: "trace ?w' = trace w @ [Db (GalleryFindById i), S3 (PutObjectCommand k b (mimetype f)),
                   S3 (DeleteObjectCommand (image g)), Db (GallerySave i)]"
      using ok by (simp add: run)
    then have evs: "issued w ?w' = [Db (GalleryFindById i), S3 (PutObjectCommand k b (mimetype f)),
                   S3 (DeleteObjectCommand (image g)), Db (GallerySave i)]"
      by (rule issued_append)
    have ord: "issued_before (S3 (PutObjectCommand k b (mimetype f))) (S3 (DeleteObjectCommand (image g)))
                (issued w ?w')"
      by (simp add: evs issued_before_def)
    have old: "bucket ?w' (image g) = None"
      using ok by (simp add: run)
    have new: "k \<noteq> image g \<longrightarrow> bucket ?w' k = Some \<lparr>body = b, contentType = mimetype f\<rparr>"
      using ok by (simp add: run)
    from resp st fields evs ord old new show ?thesis by blast
  qed
  from failed saved show ?thesis by blast
qed

theorem gallery_put_new_file_witness:
  "stored store1 ''g2'' = Some dome_tour
   \<and> compressAndSaveFile env_ok clip = Inr (''tour1234567.mp4'', [1, 2, 3, 4])
   \<and> fst (gallery_put env_ok ''g2'' \<lparr>body_imgTitle = Some ''New tour'', req_file = Some clip\<rparr> store1)
       = Response 200 (Item \<lparr>doc_id = ''g2'', monumentId = ''m1'', imgTitle = ''New tour'',
                            image = ''tour1234567.mp4''\<rparr>)
   \<and> stored (snd (gallery_put env_ok ''g2'' \<lparr>body_imgTitle = Some ''New tour'', req_file = Some clip\<rparr> store1)) ''g2''
       = Some \<lparr>doc_id = ''g2'', monumentId = ''m1'', imgTitle = ''New tour'', image = ''tour1234567.mp4''\<rparr>
   \<and> bucket (snd (gallery_put env_ok ''g2'' \<lparr>body_imgTitle = Some ''New tour'', req_file = Some clip\<rparr> store1))
         ''tour1234567.mp4'' = Some \<lparr>body = [1, 2, 3, 4], contentType = ''video/quicktime''\<rparr>
   \<and> bucket (snd (gallery_put env_ok ''g2'' \<lparr>body_imgTitle = Some ''New tour'', req_file = Some clip\<rparr> store1))
         ''dome1000002.mp4'' = None"
proof -
  let ?req = "\<lparr>body_imgTitle = Some ''New tour'', req_file = Some clip\<rparr>"
  have found: "stored store1 ''g2'' = Some dome_tour" by (rule store1_stored)
  have db: "db_fails env_ok (GalleryFindById ''g2'') = None" by (rule env_ok_sel)
  have upload: "req_file ?req = Some clip" by simp
  have comp: "compressAndSaveFile env_ok clip = Inr (''tour1234567.mp4'', [1, 2, 3, 4])"
    by (rule clip_compressed)
  have put: "\<not> s3_fails env_ok (PutObjectCommand ''tour1234567.mp4'' [1, 2, 3, 4] (mimetype clip))"
    by (simp add: env_ok_sel)
  from gallery_put_new_file[OF found db upload comp put] found comp
  show ?thesis
    by (auto simp: env_ok_sel dome_tour_def clip_def truthy_def to_string_def)
qed

text \<open>
  The claim C5 states fails when the generated key repeats the previous one. The second
  gallery item of the example store is a video under the key \<open>dome1000002.mp4\<close>; the new
  upload is a video named \<open>dome.mov\<close>, which the compressor passes on as it is, and the
  draw is 2. The update answers 200, the document still holds that key, and the storage
  holds nothing under it: the deletion removed the object just written, so reading the
  document does not return the new content.
\<close>

theorem gallery_put_new_file_counterexample:
  "stored store1 ''g2'' = Some dome_tour
   \<and> compressAndSaveFile env_same_draw dome_again = Inr (''dome1000002.mp4'', [8, 8, 8])
   \<and> fst (gallery_put env_same_draw ''g2'' \<lparr>body_imgTitle = None, req_file = Some dome_again\<rparr> store1)
       = Response 200 (Item dome_tour)
   \<and> stored (snd (gallery_put env_same_draw ''g2'' \<lparr>body_imgTitle = None, req_file = Some dome_again\<rparr> store1)) ''g2''
       = Some dome_tour
   \<and> image dome_tour = ''dome1000002.mp4''
   \<and> bucket (snd (gallery_put env_same_draw ''g2'' \<lparr>body_imgTitle = None, req_file = Some dome_again\<rparr> store1))
         ''dome1000002.mp4'' = None
   \<and> issued store1 (snd (gallery_put env_same_draw ''g2'' \<lparr>body_imgTitle = None, req_file = Some dome_again\<rparr> store1))
       = [Db (GalleryFindById ''g2''),
          S3 (PutObjectCommand ''dome1000002.mp4'' [8, 8, 8] ''video/quicktime''),
          S3 (DeleteObjectCommand ''dome1000002.mp4''),
          Db (GallerySave ''g2'')]"
proof -
  let ?req = "\<lparr>body_imgTitle = None, req_file = Some dome_again\<rparr>"
  have found: "stored store1 ''g2'' = Some dome_tour" by (rule store1_stored)
  have db: "db_fails env_same_draw (GalleryFindById ''g2'') = None" by (rule env_same_draw_sel)
  have upload: "req_file ?req = Some dome_again" by simp
  have comp: "compressAndSaveFile env_same_draw dome_again = Inr (''dome1000002.mp4'', [8, 8, 8])"
    by (rule dome_again_compressed)
  have put: "\<not> s3_fails env_same_draw (PutObjectCommand ''dome1000002.mp4'' [8, 8, 8] (mimetype dome_again))"
    by (simp add: env_same_draw_sel)
  note run = gallery_put_replace[OF found db upload comp put]
  have resp: "fst (gallery_put env_same_draw ''g2'' ?req store1) = Response 200 (Item dome_tour)"
    by (simp add: run env_same_draw_sel truthy_def dome_tour_def)
  have st: "stored (snd (gallery_put env_same_draw ''g2'' ?req store1)) ''g2'' = Some dome_tour"
    by (simp add: run env_same_draw_sel truthy_def stored_def store1_sel gate_photo_def dome_tour_def)
  have key: "image dome_tour = ''dome1000002.mp4''"
    by (simp add: dome_tour_def)
  have mt: "mimetype dome_again = ''video/quicktime''"
    by (simp add: dome_again_def)
  have empty: "bucket (snd (gallery_put env_same_draw ''g2'' ?req store1)) ''dome1000002.mp4'' = None"
    by (simp add: run env_same_draw_sel dome_tour_def)
  have evs: "issued store1 (snd (gallery_put env_same_draw ''g2'' ?req store1))
       = [Db (GalleryFindById ''g2''),
          S3 (PutObjectCommand ''dome1000002.mp4'' [8, 8, 8] ''video/quicktime''),
          S3 (DeleteObjectCommand ''dome1000002.mp4''),
          Db (GallerySave ''g2'')]"
    using mt by (simp add: run env_same_draw_sel issued_def store1_sel dome_tour_def)
  from found comp resp st key empty evs show ?thesis by blast
qed

section \<open>Properties of the signed gallery listings\<close>

lemma truncate_add_url: "gallery_item.truncate (add_url g url) = g"
  by (simp add: add_url_def gallery_item.truncate_def)

lemma imageUrl_add_url: "imageUrl (add_url g url) = url"
  by (simp add: add_url_def)

lemma sign_each_ok:
  assumes "list_all (signable e) gs"
  shows "sign_each e gs acc w =
     (Inr (acc @ map (\<lambda>g. add_url g (the (presign e (GetObjectCommand (image g)) 3600))) gs),
      w\<lparr>trace := trace w @ map (\<lambda>g. Sign (GetObjectCommand (image g)) 3600) gs\<rparr>)"
  using assms
proof (induction gs arbitrary: acc w)
  case Nil
  then show ?case by simp
next
  case (Cons g gs)
  from Cons.prems obtain url where url: "presign e (GetObjectCommand (image g)) 3600 = Some url"
    by (auto simp: signable_def)
  from Cons.prems have rest: "list_all (signable e) gs" by simp
  show ?case
    by (simp add: getSignedUrl_def url Let_def Cons.IH[OF rest] issue_def)
qed


lemma by_monument_ok:
  assumes "db_fails e (GalleryFind mid) = None"
    and "list_all (signable e) (filter (\<lambda>g. monumentId g = mid) (gallery w))"
  shows "gallery_by_monument e mid w =
     (Response 200 (ItemsWithUrl
        (map (\<lambda>g. add_url g (the (presign e (GetObjectCommand (image g)) 3600)))
           (filter (\<lambda>g. monumentId g = mid) (gallery w)))),
      w\<lparr>trace := trace w @ Db (GalleryFind mid) #
           map (\<lambda>g. Sign (GetObjectCommand (image g)) 3600)
             (filter (\<lambda>g. monumentId g = mid) (gallery w))\<rparr>)"
  using assms
  by (simp add: gallery_by_monument_def Gallery_find_def db_call_def Let_def sign_each_ok issue_def)

lemma public_gallery_same: "public_gallery e mid w = gallery_by_monument e mid w"
  by (simp add: public_gallery_def gallery_by_monument_def)

text \<open>
  Claim C7. When the lookup succeeds and the storage signs every key, both gallery listings
  of a monument (the authenticated one and the public one, which have the same text) answer
  200 with one view per document of that monument, in the order of the collection. Each
  view is its document with the single field \<open>imageUrl\<close> added: cut back to the fields of
  a document it is the document, and its address is what the storage signed for that
  document's key with a validity of 3600 seconds. The handler issues one lookup and then one
  signing request per document, each for 3600 seconds, and changes neither store.
\<close>

theorem gallery_by_monument_views:
  assumes "db_fails e (GalleryFind mid) = None"
    and "list_all (signable e) (filter (\<lambda>g. monumentId g = mid) (gallery w))"
  shows "\<exists>views.
           gallery_by_monument e mid w = (Response 200 (ItemsWithUrl views), snd (gallery_by_monument e mid w))
         \<and> list_all2 (\<lambda>g v. gallery_item.truncate v = g
                           \<and> presign e (GetObjectCommand (image g)) 3600 = Some (imageUrl v))
             (filter (\<lambda>g. monumentId g = mid) (gallery w)) views
         \<and> issued w (snd (gallery_by_monument e mid w))
             = Db (GalleryFind mid) #
               map (\<lambda>g. Sign (GetObjectCommand (image g)) 3600)
                 (filter (\<lambda>g. monumentId g = mid) (gallery w))
         \<and> gallery (snd (gallery_by_monument e mid w)) = gallery w
         \<and> bucket (snd (gallery_by_monument e mid w)) = bucket w
         \<and> public_gallery e mid w = gallery_by_monument e mid w"
proof -
  let ?gs = "filter (\<lambda>g. monumentId g = mid) (gallery w)"
  let ?views = "map (\<lambda>g. add_url g (the (presign e (GetObjectCommand (image g)) 3600))) ?gs"
  note run = by_monument_ok[OF assms]
  have resp: "gallery_by_monument e mid w
      = (Response 200 (ItemsWithUrl ?views), snd (gallery_by_monument e mid w))"
    by (simp add: run)
  from assms(2) have "\<forall>g \<in> set ?gs. \<exists>url. presign e (GetObjectCommand (image g)) 3600 = Some url"
    by (auto simp: list_all_iff signable_def)
  then have rel: "list_all2 (\<lambda>g v. gallery_item.truncate v = g
                           \<and> presign e (GetObjectCommand (image g)) 3600 = Some (imageUrl v)) ?gs ?views"
    by (auto simp: list_all2_map2 truncate_add_url imageUrl_add_url intro!: list_all2_same[THEN iffD2])
  have "trace (snd (gallery_by_monument e mid w))
      = trace w @ Db (GalleryFind mid) # map (\<lambda>g. Sign (GetObjectCommand (image g)) 3600) ?gs"
    by (simp add: run)
  then have evs: "issued w (snd (gallery_by_monument e mid w))
      = Db (GalleryFind mid) # map (\<lambda>g. Sign (GetObjectCommand (image g)) 3600) ?gs"
    by (rule issued_append)
  have frame: "gallery (snd (gallery_by_monument e mid w)) = gallery w"
      "bucket (snd (gallery_by_monument e mid w)) = bucket w"
    by (simp_all add: run)
  from resp rel evs frame public_gallery_same show ?thesis by blast
qed


lemma view_eq:
  fixes v :: gallery_view
  assumes "gallery_item.truncate v = g" and "imageUrl v = url"
  shows "v = add_url g url"
  using assms by (cases v) (auto simp: add_url_def gallery_item.truncate_def)

theorem gallery_by_monument_views_witness:
  "list_all (signable env_ok) (filter (\<lambda>g. monumentId g = ''m1'') (gallery store1))
   \<and> fst (gallery_by_monument env_ok ''m1'' store1)
       = Response 200 (ItemsWithUrl
           [add_url gate_photo ''https://bucket.example/gate1000001.jpg?expires=3600'',
            add_url dome_tour ''https://bucket.example/dome1000002.mp4?expires=3600''])
   \<and> issued store1 (snd (gallery_by_monument env_ok ''m1'' store1))
       = [Db (GalleryFind ''m1''), Sign (GetObjectCommand ''gate1000001.jpg'') 3600,
          Sign (GetObjectCommand ''dome1000002.mp4'') 3600]
   \<and> public_gallery env_ok ''m1'' store1 = gallery_by_monument env_ok ''m1'' store1"
proof -
  have sel: "filter (\<lambda>g. monumentId g = ''m1'') (gallery store1) = [gate_photo, dome_tour]"
    by (simp add: store1_sel gate_photo_def dome_tour_def fort_wall_def)
  have urls:
    "presign env_ok (GetObjectCommand (image gate_photo)) 3600
       = Some ''https://bucket.example/gate1000001.jpg?expires=3600''"
    "presign env_ok (GetObjectCommand (image dome_tour)) 3600
       = Some ''https://bucket.example/dome1000002.mp4?expires=3600''"
    by (simp_all add: env_ok_sel gate_photo_def dome_tour_def string_of_nat.simps digit_char_def)
  have db: "db_fails env_ok (GalleryFind ''m1'') = None" by (rule env_ok_sel)
  have signs: "list_all (signable env_ok) (filter (\<lambda>g. monumentId g = ''m1'') (gallery store1))"
    by (simp add: sel signable_def urls)
  from gallery_by_monument_views[OF db signs] obtain views where
    resp: "gallery_by_monument env_ok ''m1'' store1
        = (Response 200 (ItemsWithUrl views), snd (gallery_by_monument env_ok ''m1'' store1))"
    and rel: "list_all2 (\<lambda>g v. gallery_item.truncate v = g
                 \<and> presign env_ok (GetObjectCommand (image g)) 3600 = Some (imageUrl v))
               [gate_photo, dome_tour] views"
    and evs: "issued store1 (snd (gallery_by_monument env_ok ''m1'' store1))
        = Db (GalleryFind ''m1'') #
          map (\<lambda>g. Sign (GetObjectCommand (image g)) 3600) [gate_photo, dome_tour]"
    and same: "public_gallery env_ok ''m1'' store1 = gallery_by_monument env_ok ''m1'' store1"
    unfolding sel by blast
  from rel obtain v1 v2 where views: "views = [v1, v2]"
    and v1: "gallery_item.truncate v1 = gate_photo"
      "imageUrl v1 = ''https://bucket.example/gate1000001.jpg?expires=3600''"
    and v2: "gallery_item.truncate v2 = dome_tour"
      "imageUrl v2 = ''https://bucket.example/dome1000002.mp4?expires=3600''"
    by (auto simp: list_all2_Cons1 urls)
  from v1 v2 have "v1 = add_url gate_photo ''https://bucket.example/gate1000001.jpg?expires=3600''"
    and "v2 = add_url dome_tour ''https://bucket.example/dome1000002.mp4?expires=3600''"
    by (simp_all add: view_eq)
  with views resp have first: "fst (gallery_by_monument env_ok ''m1'' store1)
       = Response 200 (ItemsWithUrl
           [add_url gate_photo ''https://bucket.example/gate1000001.jpg?expires=3600'',
            add_url dome_tour ''https://bucket.example/dome1000002.mp4?expires=3600''])"
    by (metis fst_conv)
  from evs have second: "issued store1 (snd (gallery_by_monument env_ok ''m1'' store1))
       = [Db (GalleryFind ''m1''), Sign (GetObjectCommand ''gate1000001.jpg'') 3600,
          Sign (GetObjectCommand ''dome1000002.mp4'') 3600]"
    by (simp add: gate_photo_def dome_tour_def)
  from signs first second same show ?thesis by blast
qed

section \<open>Properties of the public monument listings\<close>

lemma latest3_run:
  assumes "db_fails e MonumentFind = None"
  shows "public_latest3 e w =
     (Response 200 (Monuments (take 3 (sort_createdAt_desc (find_status 1 (monuments w))))),
      issue (Db MonumentFind) w)"
  using assms by (simp add: public_latest3_def db_call_def Let_def)

lemma sort_createdAt_desc_sorted:
  "sorted_wrt (\<lambda>a b. createdAt b \<le> createdAt a) (sort_createdAt_desc ms)"
proof -
  have "sorted (map (\<lambda>m. - createdAt m) (sort_createdAt_desc ms))"
    unfolding sort_createdAt_desc_def by (rule sorted_sort_key)
  then show ?thesis by (simp add: sorted_map)
qed

lemma sorted_wrt_take_drop:
  assumes "sorted_wrt R xs" and "x \<in> set (take n xs)" and "y \<in> set (drop n xs)"
  shows "R x y"
proof -
  from assms(1) have "sorted_wrt R (take n xs @ drop n xs)" by simp
  with assms(2,3) show ?thesis unfolding sorted_wrt_append by blast
qed

text \<open>
  Claim C1, as the code has it. When the lookup succeeds, list-latest answers 200 with the
  up to three most recently created monuments of status 1, in descending order of creation
  time: the monuments of status 1 in the collection split, each with its multiplicity, into
  the ones returned and the ones left out, and no monument left out was created later than
  one that is returned. There are three of them whenever the collection holds three of
  status 1, all are of status 1 and from the collection, and the collection itself is
  unchanged.
\<close>

theorem public_latest3_verified:
  assumes "db_fails e MonumentFind = None"
  shows "\<exists>ms rest. public_latest3 e w = (Response 200 (Monuments ms), issue (Db MonumentFind) w)
         \<and> mset ms + mset rest = mset (find_status 1 (monuments w))
         \<and> (\<forall>x \<in> set ms. \<forall>y \<in> set rest. createdAt y \<le> createdAt x)
         \<and> length ms = min 3 (length (find_status 1 (monuments w)))
         \<and> (\<forall>m \<in> set ms. status m = 1 \<and> m \<in> set (monuments w))
         \<and> sorted_wrt (\<lambda>a b. createdAt b \<le> createdAt a) ms
         \<and> (\<forall>m \<in> set (monuments w). status m = 1 \<and> m \<notin> set ms \<longrightarrow>
               (\<forall>x \<in> set ms. createdAt m \<le> createdAt x))"
proof -
  let ?all = "sort_createdAt_desc (find_status 1 (monuments w))"
  let ?ms = "take 3 ?all"
  let ?rest = "drop 3 ?all"
  have set_all: "set ?all = {m \<in> set (monuments w). status m = 1}"
    by (simp add: sort_createdAt_desc_def find_status_def)
  have run: "public_latest3 e w = (Response 200 (Monuments ?ms), issue (Db MonumentFind) w)"
    by (rule latest3_run[OF assms])
  have "mset ?ms + mset ?rest = mset ?all"
    by (metis append_take_drop_id mset_append)
  also have "\<dots> = mset (find_status 1 (monuments w))"
    by (simp add: sort_createdAt_desc_def)
  finally have split: "mset ?ms + mset ?rest = mset (find_status 1 (monuments w))" .
  have older: "\<forall>x \<in> set ?ms. \<forall>y \<in> set ?rest. createdAt y \<le> createdAt x"
    using sorted_wrt_take_drop[OF sort_createdAt_desc_sorted] by blast
  have len: "length ?ms = min 3 (length (find_status 1 (monuments w)))"
    by (simp add: sort_createdAt_desc_def min.commute)
  have verified: "\<forall>m \<in> set ?ms. status m = 1 \<and> m \<in> set (monuments w)"
    using set_all by (auto dest: in_set_takeD)
  have ordered: "sorted_wrt (\<lambda>a b. createdAt b \<le> createdAt a) ?ms"
    using sort_createdAt_desc_sorted by (rule sorted_wrt_take)
  have newest: "\<forall>m \<in> set (monuments w). status m = 1 \<and> m \<notin> set ?ms \<longrightarrow>
               (\<forall>x \<in> set ?ms. createdAt m \<le> createdAt x)"
  proof (intro ballI impI)
    fix m x
    assume m: "m \<in> set (monuments w)" "status m = 1 \<and> m \<notin> set ?ms" and x: "x \<in> set ?ms"
    from m set_all have "m \<in> set ?all" by simp
    moreover have "set ?all = set (take 3 ?all) \<union> set (drop 3 ?all)"
      by (metis append_take_drop_id set_append)
    ultimately have "m \<in> set (drop 3 ?all)" using m(2) by blast
    from sorted_wrt_take_drop[OF sort_createdAt_desc_sorted x this]
    show "createdAt m \<le> createdAt x" .
  qed
  from run split older len verified ordered newest show ?thesis by blast
qed

lemma five_latest:
  "take 3 (sort_createdAt_desc (find_status 1 five)) = [mon ''d'' 1 4, mon ''c'' 1 3, mon ''a'' 1 1]"
  "spec_list_latest 3 five = [mon ''e'' 0 5, mon ''d'' 1 4, mon ''c'' 1 3]"
  by (simp_all add: spec_list_latest_def sort_createdAt_desc_def find_status_def five_def mon_def)

theorem public_latest3_verified_witness:
  "db_fails env_ok MonumentFind = None
   \<and> fst (public_latest3 env_ok store1) = Response 200 (Monuments [mon ''d'' 1 4, mon ''c'' 1 3, mon ''a'' 1 1])
   \<and> find_status 1 (monuments store1) = [mon ''a'' 1 1, mon ''c'' 1 3, mon ''d'' 1 4]
   \<and> (\<exists>rest. mset [mon ''d'' 1 4, mon ''c'' 1 3, mon ''a'' 1 1] + mset rest
                = mset (find_status 1 (monuments store1)))
   \<and> length [mon ''d'' 1 4, mon ''c'' 1 3, mon ''a'' 1 1] = min 3 (length (find_status 1 (monuments store1)))"
proof -
  have db: "db_fails env_ok MonumentFind = None" by (rule env_ok_sel)
  have ver: "find_status 1 (monuments store1) = [mon ''a'' 1 1, mon ''c'' 1 3, mon ''d'' 1 4]"
    by (simp add: find_status_def store1_sel five_def mon_def)
  from public_latest3_verified[OF db, of store1] obtain ms rest where
    run: "public_latest3 env_ok store1 = (Response 200 (Monuments ms), issue (Db MonumentFind) store1)"
    and split: "mset ms + mset rest = mset (find_status 1 (monuments store1))"
    and len: "length ms = min 3 (length (find_status 1 (monuments store1)))"
    by blast
  from run latest3_run[OF db, of store1] have ms: "ms = [mon ''d'' 1 4, mon ''c'' 1 3, mon ''a'' 1 1]"
    by (simp add: store1_sel five_latest)
  from split ms have ex: "\<exists>rest. mset [mon ''d'' 1 4, mon ''c'' 1 3, mon ''a'' 1 1] + mset rest
                = mset (find_status 1 (monuments store1))"
    by blast
  from run ms have resp: "fst (public_latest3 env_ok store1)
      = Response 200 (Monuments [mon ''d'' 1 4, mon ''c'' 1 3, mon ''a'' 1 1])"
    by simp
  from len ms have len': "length [mon ''d'' 1 4, mon ''c'' 1 3, mon ''a'' 1 1]
      = min 3 (length (find_status 1 (monuments store1)))"
    by simp
  from db resp ver ex len' show ?thesis by blast
qed

text \<open>
  Claim C1 as stated (the three most recently created, whatever their status) fails on the
  store of five monuments with statuses 1, 0, 1, 1, 0: the handler returns the monuments
  created fourth, third and first, not the three newest.
\<close>

theorem public_latest3_counterexample:
  "map status (monuments store1) = [1, 0, 1, 1, 0]
   \<and> map createdAt (monuments store1) = [1, 2, 3, 4, 5]
   \<and> fst (public_latest3 env_ok store1)
       = Response 200 (Monuments [mon ''d'' 1 4, mon ''c'' 1 3, mon ''a'' 1 1])
   \<and> spec_list_latest 3 (monuments store1) = [mon ''e'' 0 5, mon ''d'' 1 4, mon ''c'' 1 3]
   \<and> fst (public_latest3 env_ok store1)
       \<noteq> Response 200 (Monuments (spec_list_latest 3 (monuments store1)))"
proof -
  have db: "db_fails env_ok MonumentFind = None" by (rule env_ok_sel)
  have st: "map status (monuments store1) = [1, 0, 1, 1, 0]"
    and ct: "map createdAt (monuments store1) = [1, 2, 3, 4, 5]"
    by (simp_all add: store1_sel five_def mon_def)
  have run: "fst (public_latest3 env_ok store1)
       = Response 200 (Monuments [mon ''d'' 1 4, mon ''c'' 1 3, mon ''a'' 1 1])"
    by (simp add: latest3_run[OF db] store1_sel five_latest)
  have spec: "spec_list_latest 3 (monuments store1) = [mon ''e'' 0 5, mon ''d'' 1 4, mon ''c'' 1 3]"
    by (simp add: store1_sel five_latest)
  have "mon ''d'' 1 4 \<noteq> mon ''e'' 0 5" by (simp add: mon_def)
  with run spec have differ: "fst (public_latest3 env_ok store1)
       \<noteq> Response 200 (Monuments (spec_list_latest 3 (monuments store1)))"
    by simp
  from st ct run spec differ show ?thesis by blast
qed

section \<open>Properties of the public monument detail\<close>

lemma store2_sel:
  "monuments store2 = [taj, orphan]"
  "users store2 = [\<lparr>user_id = ''u1'', name = ''Asha''\<rparr>]"
  by (simp_all add: store2_def store1_def)

lemma get_one_missing:
  assumes "db_fails e (MonumentFindById i) = None"
    and "find (\<lambda>m. mon_id m = i) (monuments w) = None"
  shows "fst (public_get_one e i w) = Response 500 (Message (message (null_property ''user'')))"
  using assms
  by (simp add: public_get_one_def Monument_findById_def db_call_def Let_def)

lemma get_one_found:
  assumes "db_fails e (MonumentFindById i) = None"
    and "find (\<lambda>m. mon_id m = i) (monuments w) = Some m"
    and "db_fails e (UserFindById (user m)) = None"
  shows "fst (public_get_one e i w) =
           (case owner_of w m of
              None \<Rightarrow> Response 500 (Message (message (null_property ''name'')))
            | Some u \<Rightarrow> Response 200 (Combined m (name u)))"
  using assms
  by (simp add: public_get_one_def Monument_findById_def User_findById_def db_call_def Let_def
        owner_of_def split: option.splits)

lemma null_property_text:
  "message (null_property p)
     = ''Cannot read properties of null (reading '' @ [CHR 0x27] @ p @ [CHR 0x27] @ '')''"
  by (simp add: null_property_def message_def)

text \<open>
  Claim C3. When the lookup of the monument does not throw and finds nothing, the handler
  reads \<open>user\<close> of \<open>null\<close>; the \<open>TypeError\<close> is caught and answered with status 500 and
  the error's text, not with a not-found status. When the monument is found and the lookup
  of its owner finds nothing, reading \<open>name\<close> of \<open>null\<close> is answered with 500 in the same
  way, and no part of the monument is sent. Only when both are found is the answer 200.
\<close>

theorem public_get_one_unresolved:
  assumes "db_fails e (MonumentFindById i) = None"
  shows "(find (\<lambda>m. mon_id m = i) (monuments w) = None \<longrightarrow>
            fst (public_get_one e i w)
              = Response 500 (Message (''Cannot read properties of null (reading ''
                                       @ [CHR 0x27] @ ''user'' @ [CHR 0x27] @ '')'')))
       \<and> (\<forall>m. find (\<lambda>m. mon_id m = i) (monuments w) = Some m
              \<and> db_fails e (UserFindById (user m)) = None
              \<and> owner_of w m = None \<longrightarrow>
            fst (public_get_one e i w)
              = Response 500 (Message (''Cannot read properties of null (reading ''
                                       @ [CHR 0x27] @ ''name'' @ [CHR 0x27] @ '')'')))
       \<and> (\<forall>m u. find (\<lambda>m. mon_id m = i) (monuments w) = Some m
              \<and> db_fails e (UserFindById (user m)) = None
              \<and> owner_of w m = Some u \<longrightarrow>
            fst (public_get_one e i w) = Response 200 (Combined m (name u)))"
proof (intro conjI allI impI)
  assume "find (\<lambda>m. mon_id m = i) (monuments w) = None"
  from get_one_missing[OF assms this]
  show "fst (public_get_one e i w)
      = Response 500 (Message (''Cannot read properties of null (reading ''
                               @ [CHR 0x27] @ ''user'' @ [CHR 0x27] @ '')''))"
    by (simp only: null_property_text)
next
  fix m
  assume h: "find (\<lambda>m. mon_id m = i) (monuments w) = Some m
      \<and> db_fails e (UserFindById (user m)) = None \<and> owner_of w m = None"
  then have "fst (public_get_one e i w) = Response 500 (Message (message (null_property ''name'')))"
    using get_one_found[OF assms, of w m] by simp
  then show "fst (public_get_one e i w)
      = Response 500 (Message (''Cannot read properties of null (reading ''
                               @ [CHR 0x27] @ ''name'' @ [CHR 0x27] @ '')''))"
    by (simp only: null_property_text)
next
  fix m u
  assume h: "find (\<lambda>m. mon_id m = i) (monuments w) = Some m
      \<and> db_fails e (UserFindById (user m)) = None \<and> owner_of w m = Some u"
  then show "fst (public_get_one e i w) = Response 200 (Combined m (name u))"
    using get_one_found[OF assms, of w m] by simp
qed

theorem public_get_one_unresolved_witness:
  "find (\<lambda>m. mon_id m = ''m404'') (monuments store2) = None
   \<and> fst (public_get_one env_ok ''m404'' store2)
       = Response 500 (Message (''Cannot read properties of null (reading ''
                                @ [CHR 0x27] @ ''user'' @ [CHR 0x27] @ '')''))
   \<and> code (fst (public_get_one env_ok ''m404'' store2)) \<noteq> 404
   \<and> find (\<lambda>m. mon_id m = ''m7'') (monuments store2) = Some orphan
   \<and> fst (public_get_one env_ok ''m7'' store2)
       = Response 500 (Message (''Cannot read properties of null (reading ''
                                @ [CHR 0x27] @ ''name'' @ [CHR 0x27] @ '')''))
   \<and> fst (public_get_one env_ok ''m1'' store2) = Response 200 (Combined taj ''Asha'')"
proof -
  have missing: "find (\<lambda>m. mon_id m = ''m404'') (monuments store2) = None"
    by (simp add: store2_sel taj_def orphan_def)
  have found: "find (\<lambda>m. mon_id m = ''m7'') (monuments store2) = Some orphan"
    by (simp add: store2_sel taj_def orphan_def)
  have found_taj: "find (\<lambda>m. mon_id m = ''m1'') (monuments store2) = Some taj"
    by (simp add: store2_sel taj_def)
  have no_owner: "owner_of store2 orphan = None"
    by (simp add: owner_of_def store2_sel orphan_def)
  have owner: "owner_of store2 taj = Some \<lparr>user_id = ''u1'', name = ''Asha''\<rparr>"
    by (simp add: owner_of_def store2_sel taj_def)
  have db: "\<And>op. db_fails env_ok op = None" by (rule env_ok_sel)
  from public_get_one_unresolved[OF db, of "''m404''" store2] missing
  have a: "fst (public_get_one env_ok ''m404'' store2)
       = Response 500 (Message (''Cannot read properties of null (reading ''
                                @ [CHR 0x27] @ ''user'' @ [CHR 0x27] @ '')''))"
    by blast
  then have a': "code (fst (public_get_one env_ok ''m404'' store2)) \<noteq> 404" by simp
  from public_get_one_unresolved[OF db, of "''m7''" store2] found no_owner db
  have b: "fst (public_get_one env_ok ''m7'' store2)
       = Response 500 (Message (''Cannot read properties of null (reading ''
                                @ [CHR 0x27] @ ''name'' @ [CHR 0x27] @ '')''))"
    by blast
  from public_get_one_unresolved[OF db, of "''m1''" store2] found_taj owner db
  have c: "fst (public_get_one env_ok ''m1'' store2) = Response 200 (Combined taj ''Asha'')"
    by (metis user_doc.select_convs(2))
  from missing a a' found b c show ?thesis by blast
qed

section \<open>Properties of the map part of the detail page\<close>

lemma valid_components:
  assumes "str_split CHR '','' loc = lat # lng # rest"
    and "\<not> parseFloat_isNaN (Some lat)" and "\<not> parseFloat_isNaN (Some lng)"
  shows "isValidLatLong loc"
    and "at_index (str_split CHR '','' loc) 0 = Some lat"
    and "at_index (str_split CHR '','' loc) 1 = Some lng"
    and "loc \<noteq> []"
  using assms by (auto simp: isValidLatLong_def at_index_def)

lemma str_split_no_sep: "sep \<notin> set s \<Longrightarrow> str_split sep s = [s]"
  by (induction s) auto

lemma undefined_isNaN: "parseFloat_isNaN None"
  by (simp add: parseFloat_isNaN_def to_string_def isWhiteSpace_def unsigned_literal_start_def
        startsWith_def isDigit_def)

lemma empty_isNaN: "parseFloat_isNaN (Some [])"
  by (simp add: parseFloat_isNaN_def to_string_def)

lemma digit_not_space: "isDigit c \<Longrightarrow> \<not> isWhiteSpace c \<and> c \<noteq> CHR ''+'' \<and> c \<noteq> CHR ''-''"
  by (auto simp: isDigit_def isWhiteSpace_def)

lemma digit_start_parses:
  assumes "isDigit c"
  shows "\<not> parseFloat_isNaN (Some (c # cs))"
  using assms digit_not_space[OF assms]
  by (simp add: parseFloat_isNaN_def to_string_def unsigned_literal_start_def)

lemma other_start_isNaN:
  assumes "\<not> isWhiteSpace c" and "\<not> isDigit c" and "c \<notin> set ''+-.I''"
  shows "parseFloat_isNaN (Some (c # cs))"
  using assms
  by (simp add: parseFloat_isNaN_def to_string_def unsigned_literal_start_def startsWith_def)

lemma space_skipped:
  assumes "isWhiteSpace c"
  shows "parseFloat_isNaN (Some (c # cs)) = parseFloat_isNaN (Some cs)"
  using assms by (simp add: parseFloat_isNaN_def to_string_def)

lemma signed_digit_parses:
  assumes "isDigit d"
  shows "\<not> parseFloat_isNaN (Some (CHR ''-'' # d # cs))"
    and "\<not> parseFloat_isNaN (Some (CHR ''+'' # d # cs))"
    and "\<not> parseFloat_isNaN (Some (CHR ''.'' # d # cs))"
  using assms
  by (simp_all add: parseFloat_isNaN_def to_string_def unsigned_literal_start_def startsWith_def
        isWhiteSpace_def isDigit_def)

lemma invalid_component:
  assumes "parseFloat_isNaN (at_index (str_split CHR '','' loc) 0)
           \<or> parseFloat_isNaN (at_index (str_split CHR '','' loc) 1)"
  shows "\<not> isValidLatLong loc"
  using assms by (auto simp: isValidLatLong_def Let_def)

lemma no_comma_invalid:
  assumes "CHR '','' \<notin> set loc"
  shows "\<not> isValidLatLong loc"
proof -
  from assms have "at_index (str_split CHR '','' loc) 1 = None"
    by (simp add: str_split_no_sep at_index_def)
  with undefined_isNaN show ?thesis by (simp add: invalid_component)
qed

text \<open>
  Claim C8. If the location splits at commas into a first and a second component (and
  possibly more) that both parse as numbers, \<open>isValidLatLong\<close> holds and the \<open>Map\<close>
  component gets the first component as latitude and the second as longitude. Conversely, a
  location whose first or second component is missing or does not parse, in particular one
  without a comma, fails \<open>isValidLatLong\<close> and gets no \<open>Map\<close>, as an absent one. For the
  empty location no \<open>Map\<close> is rendered and the button leads to the address with the empty
  query. The button is rendered in every case and leads to the address with the location as
  it is. Parsing as a number is \<open>parseFloat\<close> not giving \<open>NaN\<close>: a missing or empty
  component does not parse; one that starts with a digit does, also after a sign or a dot;
  leading white space is skipped; and one that starts with a character other than white
  space, a digit, a sign, a dot or the letter I does not.
\<close>

theorem map_part_location:
  "(location m = Some loc \<and> str_split CHR '','' loc = lat # lng # rest
      \<and> \<not> parseFloat_isNaN (Some lat) \<and> \<not> parseFloat_isNaN (Some lng) \<longrightarrow>
      isValidLatLong loc
      \<and> mapview (render_map_part m) = Some \<lparr>latitude = Some lat, longitude = Some lng\<rparr>)
   \<and> (location m = Some loc
        \<and> (parseFloat_isNaN (at_index (str_split CHR '','' loc) 0)
            \<or> parseFloat_isNaN (at_index (str_split CHR '','' loc) 1)) \<longrightarrow>
        \<not> isValidLatLong loc \<and> mapview (render_map_part m) = None)
   \<and> (location m = Some loc \<and> CHR '','' \<notin> set loc \<longrightarrow>
        \<not> isValidLatLong loc \<and> mapview (render_map_part m) = None)
   \<and> (location m = Some [] \<longrightarrow>
        mapview (render_map_part m) = None
        \<and> button_href (render_map_part m) = ''https://maps.google.com/?q='')
   \<and> (location m = Some loc \<and> \<not> isValidLatLong loc \<longrightarrow> mapview (render_map_part m) = None)
   \<and> (location m = None \<longrightarrow> mapview (render_map_part m) = None)
   \<and> button_href (render_map_part m) = ''https://maps.google.com/?q='' @ to_string (location m)
   \<and> parseFloat_isNaN None
   \<and> parseFloat_isNaN (Some [])
   \<and> (isDigit c \<longrightarrow> \<not> parseFloat_isNaN (Some (c # cs)))
   \<and> (\<not> isWhiteSpace c \<and> \<not> isDigit c \<and> c \<notin> set ''+-.I'' \<longrightarrow> parseFloat_isNaN (Some (c # cs)))
   \<and> (isWhiteSpace c \<longrightarrow> parseFloat_isNaN (Some (c # cs)) = parseFloat_isNaN (Some cs))
   \<and> (isDigit c \<longrightarrow> \<not> parseFloat_isNaN (Some (CHR ''-'' # c # cs))
                   \<and> \<not> parseFloat_isNaN (Some (CHR ''+'' # c # cs))
                   \<and> \<not> parseFloat_isNaN (Some (CHR ''.'' # c # cs)))"
proof -
  have valid: "isValidLatLong loc
      \<and> mapview (render_map_part m) = Some \<lparr>latitude = Some lat, longitude = Some lng\<rparr>"
    if "location m = Some loc" "str_split CHR '','' loc = lat # lng # rest"
      "\<not> parseFloat_isNaN (Some lat)" "\<not> parseFloat_isNaN (Some lng)"
    using that(1) valid_components[OF that(2,3,4)] by (simp add: render_map_part_def)
  have unparsable: "mapview (render_map_part m) = None"
    if "location m = Some loc" "\<not> isValidLatLong loc"
    using that by (simp add: render_map_part_def)
  have component: "\<not> isValidLatLong loc \<and> mapview (render_map_part m) = None"
    if "location m = Some loc"
      "parseFloat_isNaN (at_index (str_split CHR '','' loc) 0)
       \<or> parseFloat_isNaN (at_index (str_split CHR '','' loc) 1)"
    using invalid_component[OF that(2)] unparsable[OF that(1)] by simp
  have no_comma: "\<not> isValidLatLong loc \<and> mapview (render_map_part m) = None"
    if "location m = Some loc" "CHR '','' \<notin> set loc"
    using no_comma_invalid[OF that(2)] unparsable[OF that(1)] by simp
  have empty: "mapview (render_map_part m) = None
        \<and> button_href (render_map_part m) = ''https://maps.google.com/?q=''"
    if "location m = Some []"
    using that by (simp add: render_map_part_def handleMapClick_def to_string_def)
  have absent: "mapview (render_map_part m) = None" if "location m = None"
    using that by (simp add: render_map_part_def)
  have button: "button_href (render_map_part m) = ''https://maps.google.com/?q='' @ to_string (location m)"
    by (simp add: render_map_part_def handleMapClick_def)
  have digit: "isDigit c \<longrightarrow> \<not> parseFloat_isNaN (Some (c # cs))"
    using digit_start_parses by blast
  have other: "\<not> isWhiteSpace c \<and> \<not> isDigit c \<and> c \<notin> set ''+-.I'' \<longrightarrow> parseFloat_isNaN (Some (c # cs))"
    using other_start_isNaN by blast
  have space: "isWhiteSpace c \<longrightarrow> parseFloat_isNaN (Some (c # cs)) = parseFloat_isNaN (Some cs)"
    using space_skipped by blast
  have signed: "isDigit c \<longrightarrow> \<not> parseFloat_isNaN (Some (CHR ''-'' # c # cs))
                   \<and> \<not> parseFloat_isNaN (Some (CHR ''+'' # c # cs))
                   \<and> \<not> parseFloat_isNaN (Some (CHR ''.'' # c # cs))"
    using signed_digit_parses by blast
  from valid component no_comma empty unparsable absent button undefined_isNaN empty_isNaN digit other
    space signed
  show ?thesis by blast
qed

lemma taj_split: "str_split CHR '','' ''27.1751,78.0421'' = [''27.1751'', ''78.0421'']"
  by simp

lemma taj_parses:
  "\<not> parseFloat_isNaN (Some ''27.1751'')" "\<not> parseFloat_isNaN (Some ''78.0421'')"
  by (simp_all add: parseFloat_isNaN_def to_string_def isWhiteSpace_def unsigned_literal_start_def
        startsWith_def isDigit_def)

lemma agra_first_isNaN:
  "parseFloat_isNaN (at_index (str_split CHR '','' ''Agra, India'') 0)"
  by (simp add: at_index_def parseFloat_isNaN_def to_string_def isWhiteSpace_def
        unsigned_literal_start_def startsWith_def isDigit_def)

lemma north_second_isNaN:
  "parseFloat_isNaN (at_index (str_split CHR '','' ''27.1751,north'') 1)"
  by (simp add: at_index_def parseFloat_isNaN_def to_string_def isWhiteSpace_def
        unsigned_literal_start_def startsWith_def isDigit_def)

theorem map_part_location_witness:
  "isValidLatLong ''27.1751,78.0421''
   \<and> mapview (render_map_part taj) = Some \<lparr>latitude = Some ''27.1751'', longitude = Some ''78.0421''\<rparr>
   \<and> mapview (render_map_part (mon ''a'' 1 1)) = None
   \<and> button_href (render_map_part (mon ''a'' 1 1)) = ''https://maps.google.com/?q=''
   \<and> mapview (render_map_part orphan) = None
   \<and> button_href (render_map_part orphan) = ''https://maps.google.com/?q=not recorded''
   \<and> mapview (render_map_part (taj\<lparr>location := Some ''Agra, India''\<rparr>)) = None
   \<and> mapview (render_map_part (taj\<lparr>location := Some ''27.1751,north''\<rparr>)) = None
   \<and> mapview (render_map_part (taj\<lparr>location := Some ''27.1751''\<rparr>)) = None"
proof -
  have loc: "location taj = Some ''27.1751,78.0421''" by (simp add: taj_def)
  from map_part_location[where m = taj and loc = "''27.1751,78.0421''" and lat = "''27.1751''"
      and lng = "''78.0421''" and rest = "[]" and c = "CHR ''2''" and cs = "[]"]
    loc taj_split taj_parses
  have a: "isValidLatLong ''27.1751,78.0421''
     \<and> mapview (render_map_part taj) = Some \<lparr>latitude = Some ''27.1751'', longitude = Some ''78.0421''\<rparr>"
    by blast
  have "location (mon ''a'' 1 1) = Some []" by (simp add: mon_def)
  with map_part_location[where m = "mon ''a'' 1 1" and loc = "[]" and lat = "[]" and lng = "[]"
      and rest = "[]" and c = "CHR ''2''" and cs = "[]"]
  have b: "mapview (render_map_part (mon ''a'' 1 1)) = None
     \<and> button_href (render_map_part (mon ''a'' 1 1)) = ''https://maps.google.com/?q=''"
    by blast
  have loc': "location orphan = Some ''not recorded''" by (simp add: orphan_def)
  have "CHR '','' \<notin> set ''not recorded''" by simp
  with map_part_location[where m = orphan and loc = "''not recorded''" and lat = "[]" and lng = "[]"
      and rest = "[]" and c = "CHR ''2''" and cs = "[]"] loc'
  have c: "mapview (render_map_part orphan) = None
     \<and> button_href (render_map_part orphan) = ''https://maps.google.com/?q=not recorded''"
    by (simp add: to_string_def)
  have "location (taj\<lparr>location := Some ''Agra, India''\<rparr>) = Some ''Agra, India''" by simp
  with map_part_location[where m = "taj\<lparr>location := Some ''Agra, India''\<rparr>" and loc = "''Agra, India''"
      and lat = "[]" and lng = "[]" and rest = "[]" and c = "CHR ''2''" and cs = "[]"]
    agra_first_isNaN
  have d: "mapview (render_map_part (taj\<lparr>location := Some ''Agra, India''\<rparr>)) = None"
    by blast
  have "location (taj\<lparr>location := Some ''27.1751,north''\<rparr>) = Some ''27.1751,north''" by simp
  with map_part_location[where m = "taj\<lparr>location := Some ''27.1751,north''\<rparr>" and loc = "''27.1751,north''"
      and lat = "[]" and lng = "[]" and rest = "[]" and c = "CHR ''2''" and cs = "[]"]
    north_second_isNaN
  have e: "mapview (render_map_part (taj\<lparr>location := Some ''27.1751,north''\<rparr>)) = None"
    by blast
  have "location (taj\<lparr>location := Some ''27.1751''\<rparr>) = Some ''27.1751''"
    and "CHR '','' \<notin> set ''27.1751''" by simp_all
  with map_part_location[where m = "taj\<lparr>location := Some ''27.1751''\<rparr>" and loc = "''27.1751''"
      and lat = "[]" and lng = "[]" and rest = "[]" and c = "CHR ''2''" and cs = "[]"]
  have f: "mapview (render_map_part (taj\<lparr>location := Some ''27.1751''\<rparr>)) = None"
    by blast
  from a b c d e f show ?thesis by blast
qed

end
